theory Spec2Isabelle
  imports Complex_Main
begin

section \<open>Strings and numbers of the host language\<close>

text \<open>
  A string is a list of code units; the development only ever inspects code units below
  256, so \<open>char\<close> carries them. Numbers are read exactly (as rationals and integers):
  every quantity below is a whole number of seconds or a playback position, far inside the
  range where the host's double arithmetic is exact.
\<close>

definition digit :: "nat \<Rightarrow> char" where
  "digit d = char_of (48 + d)"

text \<open>\<open>String(n)\<close> on a whole number: the decimal numeral, with a sign when negative.\<close>

fun String_nat :: "nat \<Rightarrow> string" where
  "String_nat n = (if n < 10 then [digit n] else String_nat (n div 10) @ [digit (n mod 10)])"

declare String_nat.simps [simp del]

definition String_int :: "int \<Rightarrow> string" where
  "String_int i = (if i < 0 then CHR ''-'' # String_nat (nat (- i)) else String_nat (nat i))"

text \<open>\<open>s.padStart(n, pad)\<close>: fill on the left with repetitions of \<open>pad\<close>, cut to fit.\<close>

definition padStart :: "nat \<Rightarrow> string \<Rightarrow> string \<Rightarrow> string" where
  "padStart n pad s =
     (if n \<le> length s \<or> pad = [] then s
      else take (n - length s) (concat (replicate (n - length s) pad)) @ s)"

text \<open>The remainder operator \<open>%\<close> takes the sign of the dividend.\<close>

definition js_rem :: "int \<Rightarrow> int \<Rightarrow> int" where
  "js_rem a b = sgn a * (\<bar>a\<bar> mod \<bar>b\<bar>)"

section \<open>formatTime\<close>

text \<open>
  The argument of \<open>formatTime\<close>: a finite number of seconds, the not-a-number value, or
  one of the two values that \<open>== null\<close> accepts.
\<close>

datatype seconds_arg = Seconds rat | NotANumber | NullArg | UndefinedArg

definition formatTime :: "seconds_arg \<Rightarrow> string" where
  "formatTime seconds =
     (case seconds of
        NotANumber \<Rightarrow> ''0:00''
      | UndefinedArg \<Rightarrow> ''0:00''
      | NullArg \<Rightarrow> ''0:00''
      | Seconds q \<Rightarrow>
          (let totalSeconds = \<lfloor>q\<rfloor>;
               hours = totalSeconds div 3600;
               minutes = js_rem totalSeconds 3600 div 60;
               secs = js_rem totalSeconds 60;
               formattedMinutes =
                 (if hours > 0 then padStart 2 ''0'' (String_int minutes) else String_int minutes);
               formattedSeconds = padStart 2 ''0'' (String_int secs)
           in if hours > 0
              then String_int hours @ '':'' @ formattedMinutes @ '':'' @ formattedSeconds
              else formattedMinutes @ '':'' @ formattedSeconds))"

section \<open>Reference resolution: parseYouTubeId\<close>

text \<open>
  What the function reads of a parsed URL: the host name, the path and the query
  parameters in their order of appearance. The URL constructor belongs to the platform; it
  is a parameter of the resolution function, \<open>None\<close> standing for the exception it raises
  on a string that is not a URL.
\<close>

record URL =
  hostname :: string
  pathname :: string
  searchParams :: "(string \<times> string) list"

definition searchParams_has :: "URL \<Rightarrow> string \<Rightarrow> bool" where
  "searchParams_has url k = (k \<in> set (map fst (searchParams url)))"

definition searchParams_get :: "URL \<Rightarrow> string \<Rightarrow> string option" where
  "searchParams_get url k = map_of (searchParams url) k"

text \<open>\<open>s.includes(sub)\<close>: \<open>sub\<close> occurs in \<open>s\<close> as a contiguous run.\<close>

fun str_includes :: "string \<Rightarrow> string \<Rightarrow> bool" where
  "str_includes [] sub = (sub = [])"
| "str_includes (c # cs) sub = (take (length sub) (c # cs) = sub \<or> str_includes cs sub)"

text \<open>The character class \<open>[a-zA-Z0-9_-]\<close>.\<close>

definition id_char :: "char \<Rightarrow> bool" where
  "id_char c =
     (let n = (of_char c :: nat)
      in (97 \<le> n \<and> n \<le> 122) \<or> (65 \<le> n \<and> n \<le> 90) \<or> (48 \<le> n \<and> n \<le> 57) \<or>
         c = CHR ''_'' \<or> c = CHR ''-'')"

text \<open>The test \<open>/^[a-zA-Z0-9_-]{11}$/\<close>: the whole string is eleven such characters.\<close>

definition is_video_id :: "string \<Rightarrow> bool" where
  "is_video_id s = (length s = 11 \<and> list_all id_char s)"

text \<open>
  The search \<open>/\/embed\/([a-zA-Z0-9_-]{11})/\<close>: the leftmost position where \<open>/embed/\<close>
  is followed by eleven characters of the class; the result is the captured group.
\<close>

fun embed_match :: "string \<Rightarrow> string option" where
  "embed_match [] = None"
| "embed_match (c # cs) =
     (let grp = take 11 (drop 7 (c # cs))
      in if take 7 (c # cs) = ''/embed/'' \<and> is_video_id grp then Some grp
         else embed_match cs)"

datatype ref_type = Video_ref | Playlist_ref

record resolved =
  r_type :: "ref_type option"
  r_id :: "string option"

definition unresolvable :: resolved where
  "unresolvable = \<lparr>r_type = None, r_id = None\<rparr>"

definition parseYouTubeId :: "(string \<Rightarrow> URL option) \<Rightarrow> string \<Rightarrow> resolved" where
  "parseYouTubeId new_URL urlOrId =
     (if urlOrId = [] then unresolvable
      else if is_video_id urlOrId then \<lparr>r_type = Some Video_ref, r_id = Some urlOrId\<rparr>
      else
        (case new_URL urlOrId of
           None \<Rightarrow> unresolvable
         | Some url \<Rightarrow>
             (let playlistId =
                    (if str_includes (hostname url) ''youtube.com'' \<and> searchParams_has url ''list''
                     then searchParams_get url ''list'' else None)
              in if playlistId \<noteq> None \<and> playlistId \<noteq> Some []
                 then \<lparr>r_type = Some Playlist_ref, r_id = playlistId\<rparr>
                 else if hostname url = ''youtu.be''
                 then \<lparr>r_type = Some Video_ref, r_id = Some (drop 1 (pathname url))\<rparr>
                 else if str_includes (hostname url) ''youtube.com''
                 then
                   (let videoId = searchParams_get url ''v''
                    in if videoId \<noteq> None \<and> videoId \<noteq> Some []
                       then \<lparr>r_type = Some Video_ref, r_id = videoId\<rparr>
                       else
                         (case embed_match (pathname url) of
                            Some grp \<Rightarrow> \<lparr>r_type = Some Video_ref, r_id = Some grp\<rparr>
                          | None \<Rightarrow> unresolvable))
                 else unresolvable)))"

text \<open>
  A reading of the platform's URL constructor on plain absolute \<open>http\<close> and \<open>https\<close>
  references (no credentials, port, escapes or dot segments): scheme, host up to the first
  of \<open>/ ? #\<close>, path up to the first of \<open>? #\<close> (\<open>/\<close> when empty), query up to \<open>#\<close>
  split at \<open>&\<close> and at the first \<open>=\<close> of each part. It is used only to run the
  resolution function on concrete references.
\<close>

fun split_on :: "char \<Rightarrow> string \<Rightarrow> string list" where
  "split_on d [] = [[]]"
| "split_on d (c # cs) =
     (if c = d then [] # split_on d cs
      else (case split_on d cs of [] \<Rightarrow> [[c]] | w # ws \<Rightarrow> (c # w) # ws))"

definition URL_basic :: "string \<Rightarrow> URL option" where
  "URL_basic s =
     (let rest =
            (if take 8 s = ''https://'' then Some (drop 8 s)
             else if take 7 s = ''http://'' then Some (drop 7 s) else None)
      in case rest of
           None \<Rightarrow> None
         | Some r \<Rightarrow>
             (let host = takeWhile (\<lambda>c. c \<notin> set ''/?#'') r;
                  r1 = dropWhile (\<lambda>c. c \<notin> set ''/?#'') r;
                  path = takeWhile (\<lambda>c. c \<notin> set ''?#'') r1;
                  r2 = dropWhile (\<lambda>c. c \<notin> set ''?#'') r1;
                  query = (if take 1 r2 = ''?'' then takeWhile (\<lambda>c. c \<noteq> CHR ''#'') (drop 1 r2) else [])
              in if host = [] \<or> \<not> list_all (\<lambda>c. c \<in> set ''abcdefghijklmnopqrstuvwxyz0123456789-.'') host then None
                 else Some \<lparr>hostname = host,
                            pathname = (if path = [] then ''/'' else path),
                            searchParams =
                              map (\<lambda>kv. (takeWhile (\<lambda>c. c \<noteq> CHR ''='') kv,
                                         drop 1 (dropWhile (\<lambda>c. c \<noteq> CHR ''='') kv)))
                                  (filter (\<lambda>kv. kv \<noteq> []) (split_on CHR ''&'' query))\<rparr>))"

section \<open>The document: projects, videos, notes, bookmarks\<close>

text \<open>
  Identifiers are strings; \<open>null\<close> is \<open>None\<close>. Time stamps of the clock are natural
  numbers, playback positions are exact numbers of seconds.
\<close>

record Note =
  n_id :: string
  n_t :: rat
  n_text :: string
  n_createdAt :: nat
  n_updatedAt :: nat

record Bookmark =
  b_id :: string
  b_t :: rat
  b_title :: string
  b_tag :: string
  b_color :: string
  b_createdAt :: nat

record Video =
  v_id :: string
  v_title :: string
  videoId :: string
  source :: string
  playlistIndex :: "nat option"
  "notes" :: "Note list"
  bookmarks :: "Bookmark list"
  lastTime :: rat
  v_createdAt :: nat

record Project =
  p_id :: string
  p_name :: string
  videos :: "Video list"
  p_createdAt :: nat

record AppState =
  theme :: string
  compact :: bool
  distractionFree :: bool
  projects :: "Project list"
  currentProjectId :: "string option"

text \<open>
  The component: the persisted document and the local fields of the page that the
  handlers read and reset.
\<close>

record App =
  state :: AppState
  urlInput :: string
  currentVideoId :: "string option"
  noteDraft :: string
  bookmarkTitle :: string
  bookmarkTag :: string
  bookmarkColor :: string

text \<open>
  What a handler shows to the user. \<open>Invalid_link\<close>: "Please paste a valid YouTube video
  or playlist link/ID."; \<open>Playlist_unavailable m\<close>: the question whether to add the
  playlist by hand, followed by the instructions when \<open>m\<close>; \<open>All_present\<close>: "All videos
  from this playlist are already in the project."; \<open>Added k\<close>: the count of videos added
  from a playlist; \<open>Write_note_first\<close>: "Write a note first."; \<open>Note_empty\<close>: "Note
  cannot be empty."; \<open>Invalid_JSON\<close>: "Invalid JSON file".
\<close>

datatype notice =
  Invalid_link | Playlist_unavailable bool | All_present | Added nat
  | Write_note_first | Note_empty | Invalid_JSON

text \<open>
  \<open>s.trim()\<close>: white space and line terminators are removed at both ends (the code
  units below 256 among them: tab, line feed, vertical tab, form feed, carriage return,
  space, no-break space).
\<close>

definition is_space :: "char \<Rightarrow> bool" where
  "is_space c = ((of_char c :: nat) \<in> {9, 10, 11, 12, 13, 32, 160})"

definition trim :: "string \<Rightarrow> string" where
  "trim s = rev (dropWhile is_space (rev (dropWhile is_space s)))"

text \<open>
  \<open>state.projects.find((p) => p.id === state.currentProjectId) || state.projects[0]\<close>
\<close>

definition currentProject :: "AppState \<Rightarrow> Project option" where
  "currentProject s =
     (case find (\<lambda>p. Some (p_id p) = currentProjectId s) (projects s) of
        Some p \<Rightarrow> Some p
      | None \<Rightarrow> (case projects s of [] \<Rightarrow> None | p # _ \<Rightarrow> Some p))"

text \<open>\<open>currentProject?.videos.find((v) => v.videoId === currentVideoId) || null\<close>\<close>

definition currentVideo :: "App \<Rightarrow> Video option" where
  "currentVideo a =
     (case currentProject (state a) of
        None \<Rightarrow> None
      | Some p \<Rightarrow> find (\<lambda>v. Some (videoId v) = currentVideoId a) (videos p))"

subsection \<open>Projects\<close>

definition handleProjectChange :: "string \<Rightarrow> App \<Rightarrow> App" where
  "handleProjectChange projectId a = a\<lparr>state := (state a)\<lparr>currentProjectId := Some projectId\<rparr>\<rparr>"

text \<open>
  \<open>answer\<close> is what the prompt returned (\<open>None\<close> when dismissed), \<open>newId\<close> the value of
  \<open>generateId()\<close>, \<open>now\<close> the clock.
\<close>

definition handleAddProject :: "string option \<Rightarrow> string \<Rightarrow> nat \<Rightarrow> App \<Rightarrow> App" where
  "handleAddProject answer newId now a =
     (case answer of
        None \<Rightarrow> a
      | Some name \<Rightarrow>
          if name = [] then a
          else
            (let newProject = \<lparr>p_id = newId, p_name = name, videos = [], p_createdAt = now\<rparr>
             in a\<lparr>state := (state a)\<lparr>projects := projects (state a) @ [newProject],
                                      currentProjectId := Some (p_id newProject)\<rparr>\<rparr>))"

text \<open>
  \<open>projects[0]?.id || null\<close>: the identifier of the first project, \<open>null\<close> when there is
  none or when it is the empty string.
\<close>

definition first_id_or_null :: "Project list \<Rightarrow> string option" where
  "first_id_or_null ps =
     (case ps of [] \<Rightarrow> None | p # _ \<Rightarrow> if p_id p = [] then None else Some (p_id p))"

definition handleDeleteProject :: "bool \<Rightarrow> string \<Rightarrow> nat \<Rightarrow> App \<Rightarrow> App" where
  "handleDeleteProject confirmed newId now a =
     (case currentProject (state a) of
        None \<Rightarrow> a
      | Some cp \<Rightarrow>
          if \<not> confirmed then a
          else
            (let remainingProjects = filter (\<lambda>p. p_id p \<noteq> p_id cp) (projects (state a));
                 ps = (if remainingProjects \<noteq> [] then remainingProjects
                       else [\<lparr>p_id = newId, p_name = ''New Project'', videos = [],
                              p_createdAt = now\<rparr>])
             in a\<lparr>state := (state a)\<lparr>projects := ps, currentProjectId := first_id_or_null ps\<rparr>\<rparr>))"

subsection \<open>Videos\<close>

text \<open>
  The playlist request: \<open>api\<close> is the list of (title, video identifier) items of a
  successful response, \<open>None\<close> when the request fails in any way; \<open>gen k\<close> is the value of
  the \<open>k\<close>-th call of \<open>generateId()\<close>.
\<close>

definition fetchPlaylistVideos ::
  "(string \<Rightarrow> URL option) \<Rightarrow> (string \<times> string) list option \<Rightarrow> (nat \<Rightarrow> string) \<Rightarrow> nat \<Rightarrow>
   string \<Rightarrow> Video list" where
  "fetchPlaylistVideos new_URL api gen now sourceUrl =
     (case api of
        Some items \<Rightarrow>
          map (\<lambda>(index, (title, vid)).
                 \<lparr>v_id = gen index, v_title = title, videoId = vid,
                  source = ''https://www.youtube.com/watch?v='' @ vid,
                  playlistIndex = Some (index + 1), notes = [], bookmarks = [],
                  lastTime = 0, v_createdAt = now\<rparr>)
              (enumerate 0 items)
      | None \<Rightarrow>
          if sourceUrl = [] then []
          else
            (case new_URL sourceUrl of
               None \<Rightarrow> []
             | Some url \<Rightarrow>
                 (case searchParams_get url ''v'' of
                    None \<Rightarrow> []
                  | Some vid \<Rightarrow>
                      if vid = [] then []
                      else [\<lparr>v_id = gen 0, v_title = ''Video from Playlist'', videoId = vid,
                             source = sourceUrl, playlistIndex = Some 1, notes = [],
                             bookmarks = [], lastTime = 0, v_createdAt = now\<rparr>])))"

definition add_videos :: "Project \<Rightarrow> Video list \<Rightarrow> App \<Rightarrow> App" where
  "add_videos cp videosToAdd a =
     a\<lparr>state := (state a)\<lparr>projects :=
            map (\<lambda>p. if p_id p = p_id cp then p\<lparr>videos := videos p @ videosToAdd\<rparr> else p)
                (projects (state a))\<rparr>,
       currentVideoId :=
         (case videosToAdd of [] \<Rightarrow> currentVideoId a | v # _ \<Rightarrow> Some (videoId v)),
       urlInput := []\<rparr>"

definition handleAddVideo ::
  "(string \<Rightarrow> URL option) \<Rightarrow> (string \<times> string) list option \<Rightarrow> bool \<Rightarrow> (nat \<Rightarrow> string) \<Rightarrow> nat \<Rightarrow>
   App \<Rightarrow> notice list \<times> App" where
  "handleAddVideo new_URL api useManual gen now a =
     (case currentProject (state a) of
        None \<Rightarrow> ([], a)
      | Some cp \<Rightarrow>
          (let r = parseYouTubeId new_URL (trim (urlInput a))
           in case (r_type r, r_id r) of
                (Some Video_ref, Some i) \<Rightarrow>
                  if i = [] then ([Invalid_link], a)
                  else if find (\<lambda>v. videoId v = i) (videos cp) \<noteq> None
                  then ([], a\<lparr>currentVideoId := Some i, urlInput := []\<rparr>)
                  else
                    ([], add_videos cp
                           [\<lparr>v_id = gen 0, v_title = ''Untitled Video'', videoId = i,
                             source = trim (urlInput a), playlistIndex = None, notes = [],
                             bookmarks = [], lastTime = 0, v_createdAt = now\<rparr>] a)
              | (Some Playlist_ref, Some i) \<Rightarrow>
                  if i = [] then ([Invalid_link], a)
                  else
                    (let playlistVideos = fetchPlaylistVideos new_URL api gen now (trim (urlInput a))
                     in if playlistVideos = [] then ([Playlist_unavailable useManual], a)
                        else
                          (let existingVideoIds = set (map videoId (videos cp));
                               videosToAdd = filter (\<lambda>v. videoId v \<notin> existingVideoIds) playlistVideos
                           in if videosToAdd = [] then ([All_present], a)
                              else ([Added (length videosToAdd)], add_videos cp videosToAdd a)))
              | _ \<Rightarrow> ([Invalid_link], a)))"

subsection \<open>Notes and bookmarks\<close>

definition add_note :: "Project \<Rightarrow> Video \<Rightarrow> Note \<Rightarrow> AppState \<Rightarrow> AppState" where
  "add_note cp cv n s =
     s\<lparr>projects :=
         map (\<lambda>p. if p_id p \<noteq> p_id cp then p
                  else p\<lparr>videos :=
                         map (\<lambda>v. if videoId v = videoId cv then v\<lparr>notes := n # notes v\<rparr> else v)
                             (videos p)\<rparr>)
             (projects s)\<rparr>"

text \<open>
  \<open>type\<close> is the caller's argument (\<open>input\<close> from the note box, \<open>prompt\<close> from the
  keyboard shortcut and the floating button), \<open>answer\<close> what the prompt returns if it is
  opened, \<open>time\<close> the player's position, \<open>noteId\<close> the value of \<open>generateId()\<close>.
\<close>

definition handleAddNote ::
  "string \<Rightarrow> string option \<Rightarrow> rat \<Rightarrow> string \<Rightarrow> nat \<Rightarrow> App \<Rightarrow> notice list \<times> App" where
  "handleAddNote type answer time noteId now a =
     (case currentProject (state a) of
        None \<Rightarrow> ([], a)
      | Some cp \<Rightarrow>
          (case currentVideo a of
             None \<Rightarrow> ([], a)
           | Some cv \<Rightarrow>
               (let store = (\<lambda>text.
                      ([], a\<lparr>state := add_note cp cv
                                 \<lparr>n_id = noteId, n_t = time, n_text = text, n_createdAt = now,
                                  n_updatedAt = now\<rparr> (state a),
                              noteDraft := []\<rparr>));
                    text = trim (noteDraft a)
                in if type = ''input''
                   then (if text = [] then ([Write_note_first], a) else store text)
                   else if type = ''prompt''
                   then
                     (case answer of
                        None \<Rightarrow> ([Note_empty], a)
                      | Some promptText \<Rightarrow>
                          if promptText = [] then ([Note_empty], a) else store promptText)
                   else store text)))"

definition add_bookmark :: "Project \<Rightarrow> Video \<Rightarrow> Bookmark \<Rightarrow> AppState \<Rightarrow> AppState" where
  "add_bookmark cp cv b s =
     s\<lparr>projects :=
         map (\<lambda>p. if p_id p \<noteq> p_id cp then p
                  else p\<lparr>videos :=
                         map (\<lambda>v. if videoId v = videoId cv
                                   then v\<lparr>bookmarks := b # bookmarks v\<rparr> else v)
                             (videos p)\<rparr>)
             (projects s)\<rparr>"

definition handleAddBookmark :: "rat \<Rightarrow> string \<Rightarrow> nat \<Rightarrow> App \<Rightarrow> App" where
  "handleAddBookmark time newId now a =
     (case currentProject (state a) of
        None \<Rightarrow> a
      | Some cp \<Rightarrow>
          (case currentVideo a of
             None \<Rightarrow> a
           | Some cv \<Rightarrow>
               (let title = trim (if bookmarkTitle a = [] then ''Bookmark'' else bookmarkTitle a);
                    tag = trim (bookmarkTag a);
                    color = (if bookmarkColor a = [] then ''emerald'' else bookmarkColor a);
                    bookmark = \<lparr>b_id = newId, b_t = time, b_title = title, b_tag = tag,
                                b_color = color, b_createdAt = now\<rparr>
                in a\<lparr>state := add_bookmark cp cv bookmark (state a),
                     bookmarkTitle := [], bookmarkTag := []\<rparr>)))"

subsection \<open>Saving the playback position\<close>

text \<open>
  The update that the watcher applies to the document: \<open>cpid\<close> is \<open>currentProject?.id\<close>
  (\<open>None\<close> when there is no current project), \<open>cvid\<close> the open video.
\<close>

definition saveLastTime :: "string option \<Rightarrow> string \<Rightarrow> rat \<Rightarrow> AppState \<Rightarrow> AppState" where
  "saveLastTime cpid cvid currentTime s =
     s\<lparr>projects :=
         map (\<lambda>p. if Some (p_id p) \<noteq> cpid then p
                  else p\<lparr>videos :=
                         map (\<lambda>v. if videoId v = cvid then v\<lparr>lastTime := currentTime\<rparr> else v)
                             (videos p)\<rparr>)
             (projects s)\<rparr>"

text \<open>
  One tick of the watcher: the document is written only when the position has moved by
  five seconds or more since the last write; \<open>lastSavedTime\<close> is the watcher's own variable.
\<close>

definition persistTick ::
  "string option \<Rightarrow> string \<Rightarrow> rat \<Rightarrow> rat \<times> AppState \<Rightarrow> rat \<times> AppState" where
  "persistTick cpid cvid currentTime w =
     (case w of
        (lastSavedTime, s) \<Rightarrow>
          if \<bar>currentTime - lastSavedTime\<bar> \<ge> 5
          then (currentTime, saveLastTime cpid cvid currentTime s)
          else (lastSavedTime, s))"

subsection \<open>Export, import and the duplicate check\<close>

text \<open>
  The exported document is the current project as the project list holds it (\<open>None\<close>
  when there is no current project: the handler stops with an exception). The file format
  is the project's own serialisation, so a file is read back as the project it was
  written from; for the import, \<open>None\<close> is a file that is not JSON or holds no object
  with \<open>videos\<close>, and a project without an identifier is refused in the same way.
\<close>

definition handleExportJSON :: "App \<Rightarrow> Project option" where
  "handleExportJSON a =
     (case currentProject (state a) of
        None \<Rightarrow> None
      | Some cp \<Rightarrow> find (\<lambda>p. p_id p = p_id cp) (projects (state a)))"

definition handleImportJSON :: "Project option \<Rightarrow> App \<Rightarrow> notice list \<times> App" where
  "handleImportJSON file a =
     (case file of
        None \<Rightarrow> ([Invalid_JSON], a)
      | Some project \<Rightarrow>
          if p_id project = [] then ([Invalid_JSON], a)
          else ([], a\<lparr>state := (state a)\<lparr>projects := projects (state a) @ [project],
                                        currentProjectId := Some (p_id project)\<rparr>\<rparr>))"

text \<open>
  The effect that runs after every change of the project list. \<open>gen k\<close> is the value of
  \<open>generateId()\<close> for the project at index \<open>k\<close>.
\<close>

definition duplicateIdEffect :: "(nat \<Rightarrow> string) \<Rightarrow> AppState \<Rightarrow> AppState" where
  "duplicateIdEffect gen s =
     (let projectIds = map p_id (projects s)
      in if length projectIds \<noteq> card (set projectIds)
         then s\<lparr>projects :=
                  map (\<lambda>(index, project).
                         project\<lparr>p_id :=
                           (if p_id project = ''2e1d9cd0-5a2a-47c7-89c5-5bda0acd1054'' \<and> index > 0
                            then gen index else p_id project)\<rparr>)
                      (enumerate 0 (projects s))\<rparr>
         else s)"

section \<open>A small document for concrete runs\<close>

definition example_video :: Video where
  "example_video =
     \<lparr>v_id = ''v1'', v_title = ''Untitled Video'', videoId = ''dQw4w9WgXcQ'',
      source = ''https://youtu.be/dQw4w9WgXcQ'', playlistIndex = None, notes = [],
      bookmarks = [], lastTime = 0, v_createdAt = 1000\<rparr>"

definition example_project :: Project where
  "example_project =
     \<lparr>p_id = ''p1'', p_name = ''My First Study Set'', videos = [example_video],
      p_createdAt = 1000\<rparr>"

definition example_app :: App where
  "example_app =
     \<lparr>state = \<lparr>theme = ''system'', compact = False, distractionFree = False,
               projects = [example_project], currentProjectId = Some ''p1''\<rparr>,
      urlInput = [], currentVideoId = Some ''dQw4w9WgXcQ'', noteDraft = [],
      bookmarkTitle = [], bookmarkTag = [], bookmarkColor = ''emerald''\<rparr>"

section \<open>Uniqueness of identifiers\<close>

text \<open>
  The invariant of the data model: the notes and the bookmarks of a video have unique
  identifiers; the videos of a project have unique identifiers and unique external video
  identifiers; project identifiers are unique in the document.
\<close>

definition unique_in_video :: "Video \<Rightarrow> bool" where
  "unique_in_video v = (distinct (map n_id (notes v)) \<and> distinct (map b_id (bookmarks v)))"

definition unique_in_project :: "Project \<Rightarrow> bool" where
  "unique_in_project p =
     (distinct (map v_id (videos p)) \<and> distinct (map videoId (videos p)) \<and>
      (\<forall>v\<in>set (videos p). unique_in_video v))"

definition unique_ids :: "AppState \<Rightarrow> bool" where
  "unique_ids s =
     (distinct (map p_id (projects s)) \<and> (\<forall>p\<in>set (projects s). unique_in_project p))"

text \<open>Every generated identifier that occurs in the document, at any level.\<close>

definition ids_of :: "AppState \<Rightarrow> string set" where
  "ids_of s =
     set (map p_id (projects s)) \<union>
     (\<Union>p\<in>set (projects s).
        set (map v_id (videos p)) \<union>
        (\<Union>v\<in>set (videos p). set (map n_id (notes v)) \<union> set (map b_id (bookmarks v))))"

section \<open>Loading the persisted record\<close>

text \<open>
  The record is whatever \<open>JSON.parse\<close> returns, so the loader works on untyped values.
  \<open>JSON.parse\<close> and the storage are the platform's: the parser is a parameter, \<open>None\<close>
  standing for its syntax error, and reading the storage gives an exception, no entry
  (\<open>null\<close>) or the saved string.
\<close>

datatype jsval =
  JUndefined | JNull | JBool bool | JNum rat | JStr string
  | JArr "jsval list" | JObj "(string \<times> jsval) list"

datatype error = TypeError | SyntaxError | SecurityError

definition truthy :: "jsval \<Rightarrow> bool" where
  "truthy v =
     (case v of
        JUndefined \<Rightarrow> False | JNull \<Rightarrow> False | JBool b \<Rightarrow> b | JNum q \<Rightarrow> q \<noteq> 0
      | JStr s \<Rightarrow> s \<noteq> [] | JArr _ \<Rightarrow> True | JObj _ \<Rightarrow> True)"

text \<open>
  \<open>v.name\<close> for the names the loader reads (\<open>currentProjectId\<close>, \<open>projects\<close>, \<open>id\<close>),
  which no string, array, number or boolean carries: reading from \<open>null\<close> or
  \<open>undefined\<close> raises, an object gives its entry, everything else \<open>undefined\<close>.
\<close>

definition get_prop :: "jsval \<Rightarrow> string \<Rightarrow> error + jsval" where
  "get_prop v name =
     (case v of
        JUndefined \<Rightarrow> Inl TypeError
      | JNull \<Rightarrow> Inl TypeError
      | JObj fs \<Rightarrow> Inr (case map_of fs name of Some x \<Rightarrow> x | None \<Rightarrow> JUndefined)
      | _ \<Rightarrow> Inr JUndefined)"

text \<open>\<open>v[0]\<close>\<close>

definition get_index0 :: "jsval \<Rightarrow> error + jsval" where
  "get_index0 v =
     (case v of
        JUndefined \<Rightarrow> Inl TypeError
      | JNull \<Rightarrow> Inl TypeError
      | JArr xs \<Rightarrow> Inr (case xs of [] \<Rightarrow> JUndefined | x # _ \<Rightarrow> x)
      | JStr s \<Rightarrow> Inr (case s of [] \<Rightarrow> JUndefined | c # _ \<Rightarrow> JStr [c])
      | JObj fs \<Rightarrow> Inr (case map_of fs ''0'' of Some x \<Rightarrow> x | None \<Rightarrow> JUndefined)
      | _ \<Rightarrow> Inr JUndefined)"

text \<open>\<open>v?.id\<close>\<close>

definition optional_id :: "jsval \<Rightarrow> jsval" where
  "optional_id v =
     (case v of
        JUndefined \<Rightarrow> JUndefined
      | JNull \<Rightarrow> JUndefined
      | JObj fs \<Rightarrow> (case map_of fs ''id'' of Some x \<Rightarrow> x | None \<Rightarrow> JUndefined)
      | _ \<Rightarrow> JUndefined)"

text \<open>
  \<open>{ ...v, name: x }\<close>: the own entries of \<open>v\<close> (of an object its entries, of an array
  and of a string the elements under their indices, of anything else none), with the
  entry \<open>name\<close> replaced in its place or added at the end.
\<close>

definition own_entries :: "jsval \<Rightarrow> (string \<times> jsval) list" where
  "own_entries v =
     (case v of
        JObj fs \<Rightarrow> fs
      | JArr xs \<Rightarrow> map (\<lambda>(i, x). (String_nat i, x)) (enumerate 0 xs)
      | JStr s \<Rightarrow> map (\<lambda>(i, c). (String_nat i, JStr [c])) (enumerate 0 s)
      | _ \<Rightarrow> [])"

definition set_entry :: "string \<Rightarrow> jsval \<Rightarrow> (string \<times> jsval) list \<Rightarrow> (string \<times> jsval) list" where
  "set_entry name x fs =
     (if name \<in> set (map fst fs)
      then map (\<lambda>(k, y). if k = name then (k, x) else (k, y)) fs
      else fs @ [(name, x)])"

text \<open>
  The body of the \<open>try\<close> block: \<open>Inr (Some st)\<close> when it returns the state \<open>st\<close>,
  \<open>Inr None\<close> when nothing is saved and control leaves the block, \<open>Inl e\<close> when it raises.
\<close>

definition load_saved :: "(string \<Rightarrow> jsval option) \<Rightarrow> error + string option \<Rightarrow> error + jsval option" where
  "load_saved JSON_parse item =
     (case item of
        Inl e \<Rightarrow> Inl e
      | Inr None \<Rightarrow> Inr None
      | Inr (Some saved) \<Rightarrow>
          if saved = [] then Inr None
          else
            (case JSON_parse saved of
               None \<Rightarrow> Inl SyntaxError
             | Some parsed \<Rightarrow>
                 (case get_prop parsed ''currentProjectId'' of
                    Inl e \<Rightarrow> Inl e
                  | Inr c \<Rightarrow>
                      if truthy c
                      then Inr (Some (JObj (set_entry ''currentProjectId'' c (own_entries parsed))))
                      else
                        (case get_prop parsed ''projects'' of
                           Inl e \<Rightarrow> Inl e
                         | Inr ps \<Rightarrow>
                             (case get_index0 ps of
                                Inl e \<Rightarrow> Inl e
                              | Inr p0 \<Rightarrow>
                                  Inr (Some (JObj (set_entry ''currentProjectId'' (optional_id p0)
                                                     (own_entries parsed)))))))))"

text \<open>
  \<open>defaultState\<close>, with \<open>newId\<close> the identifier generated for its project and \<open>now\<close>
  the clock, and the copy of it whose \<open>currentProjectId\<close> is set to that project.
\<close>

definition defaultState :: "string \<Rightarrow> nat \<Rightarrow> jsval" where
  "defaultState newId now =
     JObj [(''theme'', JStr ''system''), (''compact'', JBool False),
           (''distractionFree'', JBool False),
           (''projects'',
              JArr [JObj [(''id'', JStr newId), (''name'', JStr ''My First Study Set''),
                          (''videos'', JArr []), (''createdAt'', JNum (of_nat now))]]),
           (''currentProjectId'', JNull)]"

definition initialState :: "string \<Rightarrow> nat \<Rightarrow> jsval" where
  "initialState newId now =
     JObj (set_entry ''currentProjectId'' (JStr newId) (own_entries (defaultState newId now)))"

text \<open>The initial value of the state: the loader catches every exception of the block.\<close>

definition useLocalStorage ::
  "(string \<Rightarrow> jsval option) \<Rightarrow> error + string option \<Rightarrow> string \<Rightarrow> nat \<Rightarrow> jsval" where
  "useLocalStorage JSON_parse item newId now =
     (case load_saved JSON_parse item of
        Inr (Some st) \<Rightarrow> st
      | Inr None \<Rightarrow> initialState newId now
      | Inl e \<Rightarrow> initialState newId now)"

text \<open>Reading an entry of a loaded state (\<open>undefined\<close> when there is none).\<close>

definition entry :: "jsval \<Rightarrow> string \<Rightarrow> jsval" where
  "entry v name =
     (case v of
        JObj fs \<Rightarrow> (case map_of fs name of Some x \<Rightarrow> x | None \<Rightarrow> JUndefined)
      | _ \<Rightarrow> JUndefined)"

text \<open>
  What the component computes first from the state it was given:
  \<open>state.projects.find((p) => p.id === state.currentProjectId) || state.projects[0]\<close>.
  The state is the object the loader returned. Calling \<open>find\<close> on anything but an array
  raises, and so does reading \<open>id\<close> from an element that is \<open>null\<close>. The comparison
  \<open>===\<close> holds between equal strings, numbers, booleans, \<open>null\<close> and \<open>undefined\<close>;
  arrays and objects are compared by reference and count as different here (the one
  identifier that can be the very object \<open>currentProjectId\<close> holds is that of the first
  project, to which \<open>||\<close> falls back).
\<close>

definition strict_eq :: "jsval \<Rightarrow> jsval \<Rightarrow> bool" where
  "strict_eq x y = (case x of JArr _ \<Rightarrow> False | JObj _ \<Rightarrow> False | _ \<Rightarrow> x = y)"

fun find_project :: "jsval \<Rightarrow> jsval list \<Rightarrow> error + jsval" where
  "find_project c [] = Inr JUndefined"
| "find_project c (p # ps) =
     (case get_prop p ''id'' of
        Inl e \<Rightarrow> Inl e
      | Inr i \<Rightarrow> if strict_eq i c then Inr p else find_project c ps)"

definition currentProject_of :: "jsval \<Rightarrow> error + jsval" where
  "currentProject_of st =
     (case entry st ''projects'' of
        JArr ps \<Rightarrow>
          (case find_project (entry st ''currentProjectId'') ps of
             Inl e \<Rightarrow> Inl e
           | Inr p \<Rightarrow> Inr (if truthy p then p else (case ps of [] \<Rightarrow> JUndefined | q # _ \<Rightarrow> q)))
      | _ \<Rightarrow> Inl TypeError)"

definition is_object :: "jsval \<Rightarrow> bool" where
  "is_object v = (case v of JObj _ \<Rightarrow> True | _ \<Rightarrow> False)"

section \<open>A saved record for concrete runs\<close>

definition example_record :: jsval where
  "example_record =
     JObj [(''theme'', JStr ''dark''),
           (''projects'',
              JArr [JObj [(''id'', JStr ''p1''), (''name'', JStr ''Algebra''),
                          (''videos'', JArr []), (''createdAt'', JNum 1000)]])]"

text \<open>
  A parser that knows five documents and rejects every other string: \<open>saved\<close>, the
  record above; \<open>stale\<close>, a record with a current project and no project list;
  \<open>empty\<close>, a record with an empty project list; \<open>bare\<close>, a record with neither;
  \<open>null\<close>, the value \<open>null\<close>.
\<close>

definition example_parse :: "string \<Rightarrow> jsval option" where
  "example_parse s =
     (if s = ''saved'' then Some example_record
      else if s = ''stale'' then Some (JObj [(''currentProjectId'', JStr ''x'')])
      else if s = ''empty'' then Some (JObj [(''projects'', JArr [])])
      else if s = ''bare'' then Some (JObj [(''theme'', JStr ''dark'')])
      else if s = ''null'' then Some JNull
      else None)"

section \<open>Reference resolution\<close>

lemma not_id_longer: "length s \<noteq> 11 \<Longrightarrow> \<not> is_video_id s" by (simp add: is_video_id_def)

lemma embed_match_hit: "is_video_id i \<Longrightarrow> embed_match (''/embed/'' @ i) = Some i"
  by (simp add: is_video_id_def)

text \<open>
  Claim C1. Let \<open>i\<close> be an eleven-character token over \<open>[A-Za-z0-9_-]\<close>, and let the
  URL constructor read the three reference forms as the URL standard prescribes. Then
  resolution returns the video identifier \<open>i\<close> for the bare token, for
  \<open>https://youtu.be/i\<close>, for \<open>https://www.youtube.com/watch?v=i\<close> and for
  \<open>https://www.youtube.com/embed/i?start=30\<close>; and every string that the constructor
  rejects and that is no such token resolves to the null result. The constructor's
  exception is caught: the function has a value on every input.
\<close>

theorem parseYouTubeId_spec:
  assumes i: "is_video_id i"
    and short: "new_URL (''https://youtu.be/'' @ i) =
           Some \<lparr>hostname = ''youtu.be'', pathname = ''/'' @ i, searchParams = []\<rparr>"
    and watch: "new_URL (''https://www.youtube.com/watch?v='' @ i) =
           Some \<lparr>hostname = ''www.youtube.com'', pathname = ''/watch'', searchParams = [(''v'', i)]\<rparr>"
    and embed: "new_URL (''https://www.youtube.com/embed/'' @ i @ ''?start=30'') =
           Some \<lparr>hostname = ''www.youtube.com'', pathname = ''/embed/'' @ i,
                 searchParams = [(''start'', ''30'')]\<rparr>"
  shows "parseYouTubeId new_URL i = \<lparr>r_type = Some Video_ref, r_id = Some i\<rparr> \<and>
         parseYouTubeId new_URL (''https://youtu.be/'' @ i) = \<lparr>r_type = Some Video_ref, r_id = Some i\<rparr> \<and>
         parseYouTubeId new_URL (''https://www.youtube.com/watch?v='' @ i) =
           \<lparr>r_type = Some Video_ref, r_id = Some i\<rparr> \<and>
         parseYouTubeId new_URL (''https://www.youtube.com/embed/'' @ i @ ''?start=30'') =
           \<lparr>r_type = Some Video_ref, r_id = Some i\<rparr> \<and>
         (\<forall>s. new_URL s = None \<and> \<not> is_video_id s \<longrightarrow>
              parseYouTubeId new_URL s = \<lparr>r_type = None, r_id = None\<rparr>)"
proof -
  have len: "length i = 11" and ne: "i \<noteq> []" using i by (auto simp: is_video_id_def)
  have bare: "parseYouTubeId new_URL i = \<lparr>r_type = Some Video_ref, r_id = Some i\<rparr>"
    using i ne by (simp add: parseYouTubeId_def)
  have c1: "parseYouTubeId new_URL (''https://youtu.be/'' @ i) = \<lparr>r_type = Some Video_ref, r_id = Some i\<rparr>"
    using short by (simp add: parseYouTubeId_def not_id_longer len searchParams_has_def)
  have c2: "parseYouTubeId new_URL (''https://www.youtube.com/watch?v='' @ i) =
           \<lparr>r_type = Some Video_ref, r_id = Some i\<rparr>"
    using ne watch by (simp add: parseYouTubeId_def not_id_longer len searchParams_has_def searchParams_get_def)
  have c3: "parseYouTubeId new_URL (''https://www.youtube.com/embed/'' @ i @ ''?start=30'') =
           \<lparr>r_type = Some Video_ref, r_id = Some i\<rparr>"
    using embed_match_hit [OF i] embed
    by (simp add: parseYouTubeId_def not_id_longer len searchParams_has_def searchParams_get_def)
  have c4: "parseYouTubeId new_URL s = \<lparr>r_type = None, r_id = None\<rparr>"
    if "new_URL s = None \<and> \<not> is_video_id s" for s
    using that by (simp add: parseYouTubeId_def unresolvable_def)
  from bare c1 c2 c3 c4 show ?thesis by blast
qed

theorem parseYouTubeId_spec_witness:
  "is_video_id ''dQw4w9WgXcQ'' \<and>
   parseYouTubeId URL_basic ''dQw4w9WgXcQ'' = \<lparr>r_type = Some Video_ref, r_id = Some ''dQw4w9WgXcQ''\<rparr> \<and>
   parseYouTubeId URL_basic ''https://youtu.be/dQw4w9WgXcQ'' =
     \<lparr>r_type = Some Video_ref, r_id = Some ''dQw4w9WgXcQ''\<rparr> \<and>
   parseYouTubeId URL_basic ''https://www.youtube.com/watch?v=dQw4w9WgXcQ'' =
     \<lparr>r_type = Some Video_ref, r_id = Some ''dQw4w9WgXcQ''\<rparr> \<and>
   parseYouTubeId URL_basic ''https://www.youtube.com/embed/dQw4w9WgXcQ?start=30'' =
     \<lparr>r_type = Some Video_ref, r_id = Some ''dQw4w9WgXcQ''\<rparr> \<and>
   URL_basic ''my favourite lecture'' = None \<and> \<not> is_video_id ''my favourite lecture'' \<and>
   parseYouTubeId URL_basic ''my favourite lecture'' = \<lparr>r_type = None, r_id = None\<rparr>"
proof -
  have i: "is_video_id ''dQw4w9WgXcQ''" by code_simp
  have short: "URL_basic (''https://youtu.be/'' @ ''dQw4w9WgXcQ'') =
      Some \<lparr>hostname = ''youtu.be'', pathname = ''/'' @ ''dQw4w9WgXcQ'', searchParams = []\<rparr>"
    by code_simp
  have watch: "URL_basic (''https://www.youtube.com/watch?v='' @ ''dQw4w9WgXcQ'') =
      Some \<lparr>hostname = ''www.youtube.com'', pathname = ''/watch'',
            searchParams = [(''v'', ''dQw4w9WgXcQ'')]\<rparr>"
    by code_simp
  have embed: "URL_basic (''https://www.youtube.com/embed/'' @ ''dQw4w9WgXcQ'' @ ''?start=30'') =
      Some \<lparr>hostname = ''www.youtube.com'', pathname = ''/embed/'' @ ''dQw4w9WgXcQ'',
            searchParams = [(''start'', ''30'')]\<rparr>"
    by code_simp
  have no_url: "URL_basic ''my favourite lecture'' = None" by code_simp
  have no_id: "\<not> is_video_id ''my favourite lecture''" by code_simp
  note all = parseYouTubeId_spec [OF i short watch embed]
  from all have "parseYouTubeId URL_basic ''my favourite lecture'' = \<lparr>r_type = None, r_id = None\<rparr>"
    using no_url no_id by blast
  with all i no_url no_id show ?thesis by simp
qed

section \<open>Time formatting\<close>

lemma digit_0: "digit 0 = CHR ''0''"
  by code_simp

lemma String_nat_small: "n < 10 \<Longrightarrow> String_nat n = [digit n]"
  by (simp add: String_nat.simps)

lemma String_nat_two: "10 \<le> n \<Longrightarrow> n < 100 \<Longrightarrow> String_nat n = [digit (n div 10), digit (n mod 10)]"
  by (subst String_nat.simps) (simp add: String_nat_small)

lemma pad2: "n < 100 \<Longrightarrow> padStart 2 ''0'' (String_nat n) = [digit (n div 10), digit (n mod 10)]"
proof (cases "n < 10")
  case True
  then show ?thesis by (simp add: padStart_def String_nat_small digit_0)
next
  case False
  assume "n < 100"
  with False show ?thesis by (simp add: padStart_def String_nat_two)
qed

lemma js_rem_nonneg: "0 \<le> a \<Longrightarrow> 0 < b \<Longrightarrow> js_rem a b = a mod b"
  by (cases "a = 0") (simp_all add: js_rem_def)

lemma formatTime_nonneg:
  assumes "0 \<le> q"
  shows "formatTime (Seconds q) =
     (let n = nat \<lfloor>q\<rfloor> in
      if n < 3600
      then String_nat (n div 60) @ [CHR '':'', digit (n mod 60 div 10), digit (n mod 60 mod 10)]
      else String_nat (n div 3600) @
           [CHR '':'', digit (n mod 3600 div 60 div 10), digit (n mod 3600 div 60 mod 10),
            CHR '':'', digit (n mod 60 div 10), digit (n mod 60 mod 10)])"
proof -
  define n where "n = nat \<lfloor>q\<rfloor>"
  have fl: "\<lfloor>q\<rfloor> = int n" using assms by (simp add: n_def)
  have h: "int n div 3600 = int (n div 3600)" by (simp add: zdiv_int)
  have r1: "js_rem (int n) 3600 = int (n mod 3600)" by (simp add: js_rem_nonneg zmod_int)
  have r2: "js_rem (int n) 60 = int (n mod 60)" by (simp add: js_rem_nonneg zmod_int)
  have m: "int (n mod 3600) div 60 = int (n mod 3600 div 60)" by (simp add: zdiv_int)
  have s60: "n mod 60 < 100" by (rule less_trans [of _ 60]) simp_all
  have m60: "n mod 3600 div 60 < 100" by (rule less_trans [of _ 60]) (simp_all add: div_less_iff_less_mult)
  show ?thesis
  proof (cases "n < 3600")
    case True
    then have z: "n div 3600 = 0" "n mod 3600 = n" by simp_all
    have "int n div 60 = int (n div 60)" by (simp add: zdiv_int)
    with True z show ?thesis
      unfolding formatTime_def n_def [symmetric]
      by (simp add: fl h r1 r2 String_int_def pad2 [OF s60] Let_def)
  next
    case False
    then have "0 < n div 3600" by (simp add: div_greater_zero_iff)
    with False show ?thesis
      unfolding formatTime_def n_def [symmetric]
      by (simp add: fl h r1 r2 m String_int_def pad2 [OF s60] pad2 [OF m60] Let_def)
  qed
qed

lemma formatTime_examples:
  "formatTime (Seconds 0) = ''0:00''"
  "formatTime (Seconds 59) = ''0:59''"
  "formatTime (Seconds 60) = ''1:00''"
  "formatTime (Seconds 61) = ''1:01''"
  "formatTime (Seconds 3661) = ''1:01:01''"
  by code_simp+

text \<open>
  Claim C2. The formatter sends 0, 59, 60, 61 and 3661 to \<open>0:00\<close>, \<open>0:59\<close>, \<open>1:00\<close>,
  \<open>1:01\<close> and \<open>1:01:01\<close>, and not-a-number and null to \<open>0:00\<close>. For every non-negative
  number of seconds, with \<open>n\<close> its whole part: below one hour the result is the plain
  decimal numeral of the minutes (a single digit below ten minutes, never padded), a colon
  and exactly two digits of seconds; from one hour on it is the numeral of the hours, a
  colon, exactly two digits of minutes, a colon and exactly two digits of seconds.
\<close>

theorem formatTime_spec:
  "formatTime (Seconds 0) = ''0:00'' \<and> formatTime (Seconds 59) = ''0:59'' \<and>
   formatTime (Seconds 60) = ''1:00'' \<and> formatTime (Seconds 61) = ''1:01'' \<and>
   formatTime (Seconds 3661) = ''1:01:01'' \<and>
   formatTime NotANumber = ''0:00'' \<and> formatTime NullArg = ''0:00'' \<and>
   (\<forall>q\<ge>0. formatTime (Seconds q) =
      (let n = nat \<lfloor>q\<rfloor>;
           ss = [digit (n mod 60 div 10), digit (n mod 60 mod 10)];
           mm = [digit (n mod 3600 div 60 div 10), digit (n mod 3600 div 60 mod 10)]
       in if n < 600 then digit (n div 60) # '':'' @ ss
          else if n < 3600 then String_nat (n div 60) @ '':'' @ ss
          else String_nat (n div 3600) @ '':'' @ mm @ '':'' @ ss))"
proof -
  have gen: "formatTime (Seconds q) =
      (let n = nat \<lfloor>q\<rfloor>;
           ss = [digit (n mod 60 div 10), digit (n mod 60 mod 10)];
           mm = [digit (n mod 3600 div 60 div 10), digit (n mod 3600 div 60 mod 10)]
       in if n < 600 then digit (n div 60) # '':'' @ ss
          else if n < 3600 then String_nat (n div 60) @ '':'' @ ss
          else String_nat (n div 3600) @ '':'' @ mm @ '':'' @ ss)" if "0 \<le> q" for q
  proof (cases "nat \<lfloor>q\<rfloor> < 600")
    case True
    then have "nat \<lfloor>q\<rfloor> div 60 < 10" by simp
    then have "String_nat (nat \<lfloor>q\<rfloor> div 60) = [digit (nat \<lfloor>q\<rfloor> div 60)]"
      by (rule String_nat_small)
    with True show ?thesis
      by (simp add: formatTime_nonneg [OF that] Let_def)
  next
    case False
    then show ?thesis
      by (simp add: formatTime_nonneg [OF that] Let_def)
  qed
  have other: "formatTime NotANumber = ''0:00''" "formatTime NullArg = ''0:00''"
    by (simp_all add: formatTime_def)
  from gen other formatTime_examples show ?thesis by blast
qed

theorem formatTime_spec_witness:
  "(0::rat) \<le> 14651 / 2 \<and> formatTime (Seconds (14651 / 2)) = ''2:02:05''"
proof -
  have pos: "(0::rat) \<le> 14651 / 2" by simp
  have fl: "nat \<lfloor>(14651 / 2 :: rat)\<rfloor> = 7325" by code_simp
  have val: "(let n = 7325 :: nat;
           ss = [digit (n mod 60 div 10), digit (n mod 60 mod 10)];
           mm = [digit (n mod 3600 div 60 div 10), digit (n mod 3600 div 60 mod 10)]
       in if n < 600 then digit (n div 60) # '':'' @ ss
          else if n < 3600 then String_nat (n div 60) @ '':'' @ ss
          else String_nat (n div 3600) @ '':'' @ mm @ '':'' @ ss) = ''2:02:05''"
    by code_simp
  from formatTime_spec have "\<forall>q\<ge>0. formatTime (Seconds q) =
      (let n = nat \<lfloor>q\<rfloor>;
           ss = [digit (n mod 60 div 10), digit (n mod 60 mod 10)];
           mm = [digit (n mod 3600 div 60 div 10), digit (n mod 3600 div 60 mod 10)]
       in if n < 600 then digit (n div 60) # '':'' @ ss
          else if n < 3600 then String_nat (n div 60) @ '':'' @ ss
          else String_nat (n div 3600) @ '':'' @ mm @ '':'' @ ss)"
    by (elim conjE)
  from this [rule_format, OF pos] have "formatTime (Seconds (14651 / 2)) = ''2:02:05''"
    unfolding fl val .
  with pos show ?thesis ..
qed

section \<open>The current project and the open video\<close>

lemma find_map_preserved:
  assumes "\<And>x. P (f x) = P x"
  shows "find P (map f xs) = map_option f (find P xs)"
  using assms by (induction xs) simp_all

lemma currentProject_map:
  assumes "\<And>p. p_id (f p) = p_id p"
  shows "currentProject (s\<lparr>projects := map f (projects s)\<rparr>) = map_option f (currentProject s)"
proof -
  have "find (\<lambda>p. Some (p_id p) = currentProjectId s) (map f (projects s)) =
        map_option f (find (\<lambda>p. Some (p_id p) = currentProjectId s) (projects s))"
    by (rule find_map_preserved) (simp add: assms)
  then show ?thesis
    by (cases "projects s") (simp_all add: currentProject_def split: option.splits)
qed

lemma currentProject_mem: "currentProject s = Some cp \<Longrightarrow> cp \<in> set (projects s)"
  by (auto simp: currentProject_def find_Some_iff split: option.splits list.splits)

lemma currentVideo_Some:
  "currentVideo a = Some cv \<Longrightarrow> \<exists>cp. currentProject (state a) = Some cp \<and>
     find (\<lambda>v. Some (videoId v) = currentVideoId a) (videos cp) = Some cv"
  by (auto simp: currentVideo_def split: option.splits)

lemma find_videoId: "find (\<lambda>v. Some (videoId v) = c) vs = Some cv \<Longrightarrow> c = Some (videoId cv)"
  by (auto simp: find_Some_iff)

text \<open>The open video after an update of the videos that carry its identifier.\<close>

lemma currentVideo_update:
  assumes cp: "currentProject (state a) = Some cp"
    and cv: "currentVideo a = Some cv"
    and g: "\<And>v. videoId (g v) = videoId v"
    and s': "state a' = (state a)\<lparr>projects :=
               map (\<lambda>p. if p_id p \<noteq> p_id cp then p
                        else p\<lparr>videos := map (\<lambda>v. if videoId v = videoId cv then g v else v) (videos p)\<rparr>)
                   (projects (state a))\<rparr>"
    and c': "currentVideoId a' = currentVideoId a"
  shows "currentVideo a' = Some (g cv)"
proof -
  let ?h = "\<lambda>v. if videoId v = videoId cv then g v else v"
  let ?f = "\<lambda>p. if p_id p \<noteq> p_id cp then p else p\<lparr>videos := map ?h (videos p)\<rparr>"
  have "currentProject (state a') = map_option ?f (currentProject (state a))"
    unfolding s' by (rule currentProject_map) simp
  then have cp': "currentProject (state a') = Some (cp\<lparr>videos := map ?h (videos cp)\<rparr>)"
    by (simp add: cp)
  have fv: "find (\<lambda>v. Some (videoId v) = currentVideoId a) (videos cp) = Some cv"
    using cp cv by (simp add: currentVideo_def)
  have "find (\<lambda>v. Some (videoId v) = currentVideoId a) (map ?h (videos cp)) =
        map_option ?h (find (\<lambda>v. Some (videoId v) = currentVideoId a) (videos cp))"
    by (rule find_map_preserved) (simp add: g)
  then show ?thesis
    by (simp add: currentVideo_def cp' c' fv)
qed

text \<open>Mapping over an enumerated list.\<close>

lemma map_enumerate_index:
  assumes "\<And>i x. h (F (i, x)) = g i"
  shows "map h (map F (enumerate n xs)) = map g [n..<n + length xs]"
proof (induction xs arbitrary: n)
  case Nil
  show ?case by simp
next
  case (Cons x xs)
  have "[n..<n + length (x # xs)] = n # [Suc n..<Suc n + length xs]"
    by (subst upt_rec) simp
  with Cons [of "Suc n"] assms show ?case by simp
qed

lemma map_enumerate_item:
  assumes "\<And>i x. h (F (i, x)) = k x"
  shows "map h (map F (enumerate n xs)) = map k xs"
  using assms by (induction xs arbitrary: n) simp_all

section \<open>Bookmark titles\<close>

lemma trim_spaces: "list_all is_space s \<Longrightarrow> trim s = []"
proof -
  assume "list_all is_space s"
  then have d: "dropWhile is_space s = []" by (induction s) simp_all
  show ?thesis unfolding trim_def d by simp
qed

lemma trim_Bookmark: "trim ''Bookmark'' = ''Bookmark''"
  by code_simp

text \<open>
  Claim C10. When a video is open, the new bookmark is placed first in the open video's
  bookmarks and its title is \<open>Bookmark\<close> exactly when the title field is the empty
  string; otherwise it is the field's content, trimmed. The default replaces an empty
  field only and trimming comes after, so a field that is not empty but holds white space
  only gives the empty string as the title, not \<open>Bookmark\<close>.
\<close>

theorem handleAddBookmark_blank_title:
  assumes cv: "currentVideo a = Some cv"
  shows "\<exists>b. currentVideo (handleAddBookmark time newId now a) = Some (cv\<lparr>bookmarks := b # bookmarks cv\<rparr>) \<and>
             b_id b = newId \<and>
             b_title b = (if bookmarkTitle a = [] then ''Bookmark'' else trim (bookmarkTitle a)) \<and>
             (bookmarkTitle a \<noteq> [] \<and> list_all is_space (bookmarkTitle a) \<longrightarrow>
                b_title b = [] \<and> b_title b \<noteq> ''Bookmark'')"
proof -
  from cv obtain cp where cp: "currentProject (state a) = Some cp"
    by (auto dest: currentVideo_Some)
  let ?t = "if bookmarkTitle a = [] then ''Bookmark'' else trim (bookmarkTitle a)"
  let ?b = "\<lparr>b_id = newId, b_t = time, b_title = ?t, b_tag = trim (bookmarkTag a),
             b_color = (if bookmarkColor a = [] then ''emerald'' else bookmarkColor a),
             b_createdAt = now\<rparr>"
  let ?a' = "handleAddBookmark time newId now a"
  have t: "trim (if bookmarkTitle a = [] then ''Bookmark'' else bookmarkTitle a) = ?t"
    by (simp add: trim_Bookmark)
  have eq: "?a' = a\<lparr>state := add_bookmark cp cv ?b (state a), bookmarkTitle := [], bookmarkTag := []\<rparr>"
    unfolding handleAddBookmark_def cp cv Let_def t by simp
  have cur: "currentVideo ?a' = Some ((\<lambda>v. v\<lparr>bookmarks := ?b # bookmarks v\<rparr>) cv)"
    by (rule currentVideo_update [OF cp cv]) (simp_all add: eq add_bookmark_def)
  have blank: "bookmarkTitle a \<noteq> [] \<and> list_all is_space (bookmarkTitle a) \<longrightarrow> ?t = [] \<and> ?t \<noteq> ''Bookmark''"
    by (simp add: trim_spaces)
  from cur blank show ?thesis by (intro exI [of _ ?b]) simp
qed

theorem handleAddBookmark_blank_title_witness:
  "(\<exists>b. currentVideo (handleAddBookmark 42 ''b1'' 2000 (example_app\<lparr>bookmarkTitle := ''   ''\<rparr>)) =
          Some (example_video\<lparr>bookmarks := b # bookmarks example_video\<rparr>) \<and>
        b_id b = ''b1'' \<and> b_title b = [] \<and> b_title b \<noteq> ''Bookmark'') \<and>
   (\<exists>b. currentVideo (handleAddBookmark 42 ''b2'' 2000 example_app) =
          Some (example_video\<lparr>bookmarks := b # bookmarks example_video\<rparr>) \<and>
        b_id b = ''b2'' \<and> b_title b = ''Bookmark'') \<and>
   (\<exists>b. currentVideo (handleAddBookmark 42 ''b3'' 2000 (example_app\<lparr>bookmarkTitle := '' Proof ''\<rparr>)) =
          Some (example_video\<lparr>bookmarks := b # bookmarks example_video\<rparr>) \<and>
        b_id b = ''b3'' \<and> b_title b = ''Proof'')"
proof -
  let ?a1 = "example_app\<lparr>bookmarkTitle := ''   ''\<rparr>"
  let ?a3 = "example_app\<lparr>bookmarkTitle := '' Proof ''\<rparr>"
  have cv1: "currentVideo ?a1 = Some example_video" by code_simp
  have cv2: "currentVideo example_app = Some example_video" by code_simp
  have cv3: "currentVideo ?a3 = Some example_video" by code_simp
  have ne: "bookmarkTitle ?a1 \<noteq> [] \<and> list_all is_space (bookmarkTitle ?a1)" by code_simp
  have e2: "bookmarkTitle example_app = []" by code_simp
  have e3: "bookmarkTitle ?a3 \<noteq> []" "trim (bookmarkTitle ?a3) = ''Proof''" by code_simp+
  from handleAddBookmark_blank_title [OF cv1, of 42 "''b1''" 2000] ne
  have w1: "\<exists>b. currentVideo (handleAddBookmark 42 ''b1'' 2000 ?a1) =
          Some (example_video\<lparr>bookmarks := b # bookmarks example_video\<rparr>) \<and>
        b_id b = ''b1'' \<and> b_title b = [] \<and> b_title b \<noteq> ''Bookmark''"
    by blast
  from handleAddBookmark_blank_title [OF cv2, of 42 "''b2''" 2000]
  have w2: "\<exists>b. currentVideo (handleAddBookmark 42 ''b2'' 2000 example_app) =
          Some (example_video\<lparr>bookmarks := b # bookmarks example_video\<rparr>) \<and>
        b_id b = ''b2'' \<and> b_title b = ''Bookmark''"
    unfolding e2 by auto
  from handleAddBookmark_blank_title [OF cv3, of 42 "''b3''" 2000] e3
  have w3: "\<exists>b. currentVideo (handleAddBookmark 42 ''b3'' 2000 ?a3) =
          Some (example_video\<lparr>bookmarks := b # bookmarks example_video\<rparr>) \<and>
        b_id b = ''b3'' \<and> b_title b = ''Proof''"
    by auto
  from w1 w2 w3 show ?thesis by (intro conjI)
qed

section \<open>Empty notes\<close>

text \<open>
  From the note box (\<open>input\<close>) a draft that is empty after trimming is refused: nothing
  changes and the user is told. From the prompt, a dismissed or empty answer is refused
  in the same way.
\<close>

lemma handleAddNote_input_rejects:
  assumes "trim (noteDraft a) = []"
  shows "snd (handleAddNote ''input'' answer time noteId now a) = a \<and>
         (currentVideo a \<noteq> None \<longrightarrow>
            fst (handleAddNote ''input'' answer time noteId now a) = [Write_note_first])"
  using assms by (auto simp: handleAddNote_def currentVideo_def Let_def split: option.splits)

lemma handleAddNote_prompt_empty_rejects:
  assumes "answer = None \<or> answer = Some []"
  shows "snd (handleAddNote ''prompt'' answer time noteId now a) = a \<and>
         (currentVideo a \<noteq> None \<longrightarrow>
            fst (handleAddNote ''prompt'' answer time noteId now a) = [Note_empty])"
  using assms by (auto simp: handleAddNote_def currentVideo_def Let_def split: option.splits)

text \<open>
  Claim C3 asks that a text that is empty after trimming never creates a note, on every
  entry path. The prompt path tests its answer without trimming it: with a video open,
  the answer of three spaces (empty after trimming) is stored as a note and no failure is
  shown.
\<close>

theorem handleAddNote_prompt_blank_stored:
  "trim ''   '' = [] \<and>
   handleAddNote ''prompt'' (Some ''   '') 12 ''n1'' 2000 example_app =
     ([], example_app\<lparr>state := (state example_app)\<lparr>projects :=
            [example_project\<lparr>videos :=
               [example_video\<lparr>notes :=
                  [\<lparr>n_id = ''n1'', n_t = 12, n_text = ''   '', n_createdAt = 2000,
                    n_updatedAt = 2000\<rparr>]\<rparr>]\<rparr>]\<rparr>\<rparr>)"
  by code_simp

section \<open>Where new items go\<close>

lemma add_videos_current:
  assumes cp: "currentProject (state a) = Some cp"
  shows "currentProject (state (add_videos cp vs a)) = Some (cp\<lparr>videos := videos cp @ vs\<rparr>)"
proof -
  let ?f = "\<lambda>p. if p_id p = p_id cp then p\<lparr>videos := videos p @ vs\<rparr> else p"
  have "currentProject ((state a)\<lparr>projects := map ?f (projects (state a))\<rparr>) =
        map_option ?f (currentProject (state a))"
    by (rule currentProject_map) simp
  then show ?thesis by (simp add: add_videos_def cp)
qed

lemma handleAddNote_stored:
  assumes cv: "currentVideo a = Some cv"
    and ok: "handleAddNote type answer time noteId now a = ([], a')"
  shows "\<exists>n. n_id n = noteId \<and> n_t n = time \<and>
             (if type = ''prompt'' then answer = Some (n_text n) else n_text n = trim (noteDraft a)) \<and>
             currentVideo a' = Some (cv\<lparr>notes := n # notes cv\<rparr>)"
proof -
  from cv obtain cp where cp: "currentProject (state a) = Some cp"
    by (auto dest: currentVideo_Some)
  from ok obtain body where a': "a' = a\<lparr>state := add_note cp cv
        \<lparr>n_id = noteId, n_t = time, n_text = body, n_createdAt = now, n_updatedAt = now\<rparr> (state a),
        noteDraft := []\<rparr>"
    and body: "if type = ''prompt'' then answer = Some body else body = trim (noteDraft a)"
    by (auto simp: handleAddNote_def cp cv Let_def split: if_splits option.splits)
  let ?n = "\<lparr>n_id = noteId, n_t = time, n_text = body, n_createdAt = now, n_updatedAt = now\<rparr>"
  have "currentVideo a' = Some ((\<lambda>v. v\<lparr>notes := ?n # notes v\<rparr>) cv)"
    by (rule currentVideo_update [OF cp cv]) (simp_all add: a' add_note_def)
  with body show ?thesis by (intro exI [of _ ?n]) simp
qed

lemma handleAddBookmark_stored:
  assumes cv: "currentVideo a = Some cv"
  shows "\<exists>b. b_id b = newId \<and> b_t b = time \<and>
           currentVideo (handleAddBookmark time newId now a) = Some (cv\<lparr>bookmarks := b # bookmarks cv\<rparr>)"
proof -
  from cv obtain cp where cp: "currentProject (state a) = Some cp"
    by (auto dest: currentVideo_Some)
  let ?b = "\<lparr>b_id = newId, b_t = time,
             b_title = trim (if bookmarkTitle a = [] then ''Bookmark'' else bookmarkTitle a),
             b_tag = trim (bookmarkTag a),
             b_color = (if bookmarkColor a = [] then ''emerald'' else bookmarkColor a),
             b_createdAt = now\<rparr>"
  let ?a' = "handleAddBookmark time newId now a"
  have eq: "?a' = a\<lparr>state := add_bookmark cp cv ?b (state a), bookmarkTitle := [], bookmarkTag := []\<rparr>"
    by (simp add: handleAddBookmark_def cp cv Let_def)
  have "currentVideo ?a' = Some ((\<lambda>v. v\<lparr>bookmarks := ?b # bookmarks v\<rparr>) cv)"
    by (rule currentVideo_update [OF cp cv]) (simp_all add: eq add_bookmark_def)
  then show ?thesis by (intro exI [of _ ?b]) simp
qed

lemma handleAddVideo_single:
  assumes cp: "currentProject (state a) = Some cp"
    and r: "parseYouTubeId new_URL (trim (urlInput a)) = \<lparr>r_type = Some Video_ref, r_id = Some i\<rparr>"
    and i: "i \<noteq> []"
    and new: "find (\<lambda>v. videoId v = i) (videos cp) = None"
  shows "currentProject (state (snd (handleAddVideo new_URL api useManual gen now a))) =
           Some (cp\<lparr>videos := videos cp @
                   [\<lparr>v_id = gen 0, v_title = ''Untitled Video'', videoId = i,
                     source = trim (urlInput a), playlistIndex = None, notes = [],
                     bookmarks = [], lastTime = 0, v_createdAt = now\<rparr>]\<rparr>)"
proof -
  have "snd (handleAddVideo new_URL api useManual gen now a) =
          add_videos cp [\<lparr>v_id = gen 0, v_title = ''Untitled Video'', videoId = i,
                     source = trim (urlInput a), playlistIndex = None, notes = [],
                     bookmarks = [], lastTime = 0, v_createdAt = now\<rparr>] a"
    using i new by (simp add: handleAddVideo_def cp r Let_def)
  then show ?thesis by (simp add: add_videos_current [OF cp])
qed

lemma handleAddVideo_playlist:
  assumes cp: "currentProject (state a) = Some cp"
    and r: "parseYouTubeId new_URL (trim (urlInput a)) = \<lparr>r_type = Some Playlist_ref, r_id = Some i\<rparr>"
    and i: "i \<noteq> []"
  shows "currentProject (state (snd (handleAddVideo new_URL api useManual gen now a))) =
           Some (cp\<lparr>videos := videos cp @
                   filter (\<lambda>v. videoId v \<notin> set (map videoId (videos cp)))
                          (fetchPlaylistVideos new_URL api gen now (trim (urlInput a)))\<rparr>)"
proof -
  let ?pv = "fetchPlaylistVideos new_URL api gen now (trim (urlInput a))"
  let ?vs = "filter (\<lambda>v. videoId v \<notin> set (map videoId (videos cp))) ?pv"
  show ?thesis
  proof (cases "?vs = []")
    case True
    then have "state (snd (handleAddVideo new_URL api useManual gen now a)) = state a"
      using i by (auto simp: handleAddVideo_def cp r Let_def)
    with True show ?thesis by (simp add: cp)
  next
    case False
    then have "?pv \<noteq> []" by auto
    with False have "snd (handleAddVideo new_URL api useManual gen now a) = add_videos cp ?vs a"
      using i by (simp add: handleAddVideo_def cp r Let_def)
    then show ?thesis by (simp add: add_videos_current [OF cp])
  qed
qed

lemma playlist_order:
  "map videoId (filter (\<lambda>v. videoId v \<notin> E) (fetchPlaylistVideos new_URL (Some items) gen now src)) =
     filter (\<lambda>x. x \<notin> E) (map snd items)"
proof -
  let ?F = "\<lambda>(index, (title, vid)).
                 \<lparr>v_id = gen index, v_title = title, videoId = vid,
                  source = ''https://www.youtube.com/watch?v='' @ vid,
                  playlistIndex = Some (index + 1), notes = [], bookmarks = [],
                  lastTime = 0, v_createdAt = now\<rparr>"
  have pv: "fetchPlaylistVideos new_URL (Some items) gen now src = map ?F (enumerate 0 items)"
    by (simp add: fetchPlaylistVideos_def)
  have vids: "map videoId (map ?F (enumerate 0 items)) = map snd items"
    by (rule map_enumerate_item) (simp add: split_beta)
  have "map videoId (filter (\<lambda>v. videoId v \<notin> E) (map ?F (enumerate 0 items))) =
        filter (\<lambda>x. x \<notin> E) (map videoId (map ?F (enumerate 0 items)))"
    by (simp only: filter_map comp_def)
  then show ?thesis by (simp only: pv vids)
qed

lemma handleAddVideo_unchanged:
  assumes cp: "currentProject (state a) = Some cp"
    and r: "r_type (parseYouTubeId new_URL (trim (urlInput a))) = None \<or>
            r_id (parseYouTubeId new_URL (trim (urlInput a))) = None \<or>
            r_id (parseYouTubeId new_URL (trim (urlInput a))) = Some [] \<or>
            (\<exists>i. parseYouTubeId new_URL (trim (urlInput a)) = \<lparr>r_type = Some Video_ref, r_id = Some i\<rparr> \<and>
                 find (\<lambda>v. videoId v = i) (videos cp) \<noteq> None)"
  shows "state (snd (handleAddVideo new_URL api useManual gen now a)) = state a"
  using r by (auto simp: handleAddVideo_def cp Let_def split: option.splits ref_type.splits)

text \<open>
  Claim C4, as the code has it. A note that is stored and a bookmark that is added become
  the first element of the open video's notes and bookmarks, in front of the existing
  ones. Videos go behind the existing videos of the current project: a resolved video
  that the project does not hold yet as one new record at the end; for a playlist, the
  fetched videos whose external identifier the project does not hold yet, in the order
  of the response. In every other case the document is left as it is.
\<close>

theorem new_items_position:
  "(currentVideo a = Some cv \<and> handleAddNote type answer time noteId now a = ([], a') \<longrightarrow>
      (\<exists>n. n_id n = noteId \<and> n_t n = time \<and>
           (if type = ''prompt'' then answer = Some (n_text n) else n_text n = trim (noteDraft a)) \<and>
           currentVideo a' = Some (cv\<lparr>notes := n # notes cv\<rparr>))) \<and>
   (currentVideo a = Some cv \<longrightarrow>
      (\<exists>b. b_id b = newId \<and> b_t b = time \<and>
           currentVideo (handleAddBookmark time newId now a) =
             Some (cv\<lparr>bookmarks := b # bookmarks cv\<rparr>))) \<and>
   (currentProject (state a) = Some cp \<and>
    parseYouTubeId new_URL (trim (urlInput a)) = \<lparr>r_type = Some Video_ref, r_id = Some i\<rparr> \<and>
    i \<noteq> [] \<and> find (\<lambda>v. videoId v = i) (videos cp) = None \<longrightarrow>
      currentProject (state (snd (handleAddVideo new_URL api useManual gen now a))) =
        Some (cp\<lparr>videos := videos cp @
                [\<lparr>v_id = gen 0, v_title = ''Untitled Video'', videoId = i,
                  source = trim (urlInput a), playlistIndex = None, notes = [],
                  bookmarks = [], lastTime = 0, v_createdAt = now\<rparr>]\<rparr>)) \<and>
   (currentProject (state a) = Some cp \<and>
    parseYouTubeId new_URL (trim (urlInput a)) = \<lparr>r_type = Some Playlist_ref, r_id = Some i\<rparr> \<and>
    i \<noteq> [] \<longrightarrow>
      currentProject (state (snd (handleAddVideo new_URL api useManual gen now a))) =
        Some (cp\<lparr>videos := videos cp @
                filter (\<lambda>v. videoId v \<notin> set (map videoId (videos cp)))
                       (fetchPlaylistVideos new_URL api gen now (trim (urlInput a)))\<rparr>)) \<and>
   map videoId (filter (\<lambda>v. videoId v \<notin> set (map videoId (videos cp)))
                       (fetchPlaylistVideos new_URL (Some items) gen now src)) =
     filter (\<lambda>x. x \<notin> set (map videoId (videos cp))) (map snd items) \<and>
   (currentProject (state a) = Some cp \<and>
    (r_type (parseYouTubeId new_URL (trim (urlInput a))) = None \<or>
     r_id (parseYouTubeId new_URL (trim (urlInput a))) = None \<or>
     r_id (parseYouTubeId new_URL (trim (urlInput a))) = Some [] \<or>
     (\<exists>j. parseYouTubeId new_URL (trim (urlInput a)) = \<lparr>r_type = Some Video_ref, r_id = Some j\<rparr> \<and>
          find (\<lambda>v. videoId v = j) (videos cp) \<noteq> None)) \<longrightarrow>
      state (snd (handleAddVideo new_URL api useManual gen now a)) = state a)"
proof (intro conjI impI)
  assume "currentVideo a = Some cv \<and> handleAddNote type answer time noteId now a = ([], a')"
  then show "\<exists>n. n_id n = noteId \<and> n_t n = time \<and>
           (if type = ''prompt'' then answer = Some (n_text n) else n_text n = trim (noteDraft a)) \<and>
           currentVideo a' = Some (cv\<lparr>notes := n # notes cv\<rparr>)"
    using handleAddNote_stored by blast
next
  assume "currentVideo a = Some cv"
  then show "\<exists>b. b_id b = newId \<and> b_t b = time \<and>
           currentVideo (handleAddBookmark time newId now a) = Some (cv\<lparr>bookmarks := b # bookmarks cv\<rparr>)"
    by (rule handleAddBookmark_stored)
next
  assume "currentProject (state a) = Some cp \<and>
    parseYouTubeId new_URL (trim (urlInput a)) = \<lparr>r_type = Some Video_ref, r_id = Some i\<rparr> \<and>
    i \<noteq> [] \<and> find (\<lambda>v. videoId v = i) (videos cp) = None"
  then show "currentProject (state (snd (handleAddVideo new_URL api useManual gen now a))) =
        Some (cp\<lparr>videos := videos cp @
                [\<lparr>v_id = gen 0, v_title = ''Untitled Video'', videoId = i,
                  source = trim (urlInput a), playlistIndex = None, notes = [],
                  bookmarks = [], lastTime = 0, v_createdAt = now\<rparr>]\<rparr>)"
    using handleAddVideo_single by blast
next
  assume "currentProject (state a) = Some cp \<and>
    parseYouTubeId new_URL (trim (urlInput a)) = \<lparr>r_type = Some Playlist_ref, r_id = Some i\<rparr> \<and>
    i \<noteq> []"
  then show "currentProject (state (snd (handleAddVideo new_URL api useManual gen now a))) =
        Some (cp\<lparr>videos := videos cp @
                filter (\<lambda>v. videoId v \<notin> set (map videoId (videos cp)))
                       (fetchPlaylistVideos new_URL api gen now (trim (urlInput a)))\<rparr>)"
    using handleAddVideo_playlist by blast
next
  show "map videoId (filter (\<lambda>v. videoId v \<notin> set (map videoId (videos cp)))
                       (fetchPlaylistVideos new_URL (Some items) gen now src)) =
     filter (\<lambda>x. x \<notin> set (map videoId (videos cp))) (map snd items)"
    by (rule playlist_order)
next
  assume "currentProject (state a) = Some cp \<and>
    (r_type (parseYouTubeId new_URL (trim (urlInput a))) = None \<or>
     r_id (parseYouTubeId new_URL (trim (urlInput a))) = None \<or>
     r_id (parseYouTubeId new_URL (trim (urlInput a))) = Some [] \<or>
     (\<exists>j. parseYouTubeId new_URL (trim (urlInput a)) = \<lparr>r_type = Some Video_ref, r_id = Some j\<rparr> \<and>
          find (\<lambda>v. videoId v = j) (videos cp) \<noteq> None))"
  then show "state (snd (handleAddVideo new_URL api useManual gen now a)) = state a"
    using handleAddVideo_unchanged [of a cp new_URL api useManual gen now] by blast
qed

text \<open>
  Claim C4 as stated puts every new item, videos included, at index 0. Adding a second
  video to a project that holds one leaves the old video at index 0 and puts the new one
  at index 1.
\<close>

theorem add_video_front_counterexample:
  "map videoId (videos (hd (projects (state (snd
      (handleAddVideo URL_basic None False (\<lambda>k. ''v2'') 2000
         (example_app\<lparr>urlInput := ''https://youtu.be/AAAAAAAAAAA''\<rparr>))))))) =
     [''dQw4w9WgXcQ'', ''AAAAAAAAAAA''] \<and>
   videoId (videos (hd (projects (state (snd
      (handleAddVideo URL_basic None False (\<lambda>k. ''v2'') 2000
         (example_app\<lparr>urlInput := ''https://youtu.be/AAAAAAAAAAA''\<rparr>)))))) ! 0) \<noteq> ''AAAAAAAAAAA''"
  by code_simp

theorem new_items_position_witness:
  "(\<exists>n. n_id n = ''n1'' \<and> n_t n = 12 \<and> n_text n = ''hello'' \<and>
      currentVideo (snd (handleAddNote ''input'' None 12 ''n1'' 2000 (example_app\<lparr>noteDraft := '' hello''\<rparr>))) =
        Some (example_video\<lparr>notes := n # notes example_video\<rparr>)) \<and>
   (\<exists>b. b_id b = ''b1'' \<and> b_t b = 30 \<and>
      currentVideo (handleAddBookmark 30 ''b1'' 2000 example_app) =
        Some (example_video\<lparr>bookmarks := b # bookmarks example_video\<rparr>)) \<and>
   currentProject (state (snd (handleAddVideo URL_basic None False (\<lambda>k. ''v2'') 2000
                 (example_app\<lparr>urlInput := ''https://youtu.be/AAAAAAAAAAA''\<rparr>)))) =
     Some (example_project\<lparr>videos := [example_video,
             \<lparr>v_id = ''v2'', v_title = ''Untitled Video'', videoId = ''AAAAAAAAAAA'',
              source = ''https://youtu.be/AAAAAAAAAAA'', playlistIndex = None, notes = [],
              bookmarks = [], lastTime = 0, v_createdAt = 2000\<rparr>]\<rparr>) \<and>
   map videoId (videos (the (currentProject (state (snd
     (handleAddVideo URL_basic
        (Some [(''Intro'', ''AAAAAAAAAAA''), (''Seen'', ''dQw4w9WgXcQ''), (''Next'', ''BBBBBBBBBBB'')])
        False (\<lambda>k. ''g'' @ String_nat k) 2000
        (example_app\<lparr>urlInput := ''https://www.youtube.com/playlist?list=PL590L5WQmH8fJ54F''\<rparr>))))))) =
     [''dQw4w9WgXcQ'', ''AAAAAAAAAAA'', ''BBBBBBBBBBB''] \<and>
   state (snd (handleAddVideo URL_basic None False (\<lambda>k. ''v2'') 2000
                 (example_app\<lparr>urlInput := ''my favourite lecture''\<rparr>))) =
     state (example_app\<lparr>urlInput := ''my favourite lecture''\<rparr>)"
proof -
  let ?a1 = "example_app\<lparr>noteDraft := '' hello''\<rparr>"
  let ?a3 = "example_app\<lparr>urlInput := ''https://youtu.be/AAAAAAAAAAA''\<rparr>"
  let ?a4 = "example_app\<lparr>urlInput := ''https://www.youtube.com/playlist?list=PL590L5WQmH8fJ54F''\<rparr>"
  let ?a5 = "example_app\<lparr>urlInput := ''my favourite lecture''\<rparr>"
  let ?items = "[(''Intro'', ''AAAAAAAAAAA''), (''Seen'', ''dQw4w9WgXcQ''), (''Next'', ''BBBBBBBBBBB'')]"
  let ?gen = "\<lambda>k. ''g'' @ String_nat k"
  have h1: "currentVideo ?a1 = Some example_video \<and>
    handleAddNote ''input'' None 12 ''n1'' 2000 ?a1 =
      ([], snd (handleAddNote ''input'' None 12 ''n1'' 2000 ?a1))"
    by code_simp
  have t1: "trim (noteDraft ?a1) = ''hello''" by code_simp
  have h2: "currentVideo example_app = Some example_video" by code_simp
  have h3: "currentProject (state ?a3) = Some example_project \<and>
    parseYouTubeId URL_basic (trim (urlInput ?a3)) =
      \<lparr>r_type = Some Video_ref, r_id = Some ''AAAAAAAAAAA''\<rparr> \<and>
    ''AAAAAAAAAAA'' \<noteq> [] \<and>
    find (\<lambda>v. videoId v = ''AAAAAAAAAAA'') (videos example_project) = None"
    by code_simp
  have t3: "trim (urlInput ?a3) = ''https://youtu.be/AAAAAAAAAAA''" by code_simp
  have v3: "videos example_project = [example_video]" by (simp add: example_project_def)
  have h4: "currentProject (state ?a4) = Some example_project \<and>
    parseYouTubeId URL_basic (trim (urlInput ?a4)) =
      \<lparr>r_type = Some Playlist_ref, r_id = Some ''PL590L5WQmH8fJ54F''\<rparr> \<and>
    ''PL590L5WQmH8fJ54F'' \<noteq> []"
    by code_simp
  have f4: "filter (\<lambda>x. x \<notin> set (map videoId (videos example_project))) (map snd ?items) =
      [''AAAAAAAAAAA'', ''BBBBBBBBBBB'']"
    by code_simp
  have h5: "currentProject (state ?a5) = Some example_project \<and>
    (r_type (parseYouTubeId URL_basic (trim (urlInput ?a5))) = None \<or>
     r_id (parseYouTubeId URL_basic (trim (urlInput ?a5))) = None \<or>
     r_id (parseYouTubeId URL_basic (trim (urlInput ?a5))) = Some [] \<or>
     (\<exists>j. parseYouTubeId URL_basic (trim (urlInput ?a5)) = \<lparr>r_type = Some Video_ref, r_id = Some j\<rparr> \<and>
          find (\<lambda>v. videoId v = j) (videos example_project) \<noteq> None))"
  proof -
    have "r_type (parseYouTubeId URL_basic (trim (urlInput ?a5))) = None" by code_simp
    moreover have "currentProject (state ?a5) = Some example_project" by code_simp
    ultimately show ?thesis by blast
  qed
  note c1 = new_items_position [THEN conjunct1, rule_format, OF h1]
  note c2 = new_items_position [THEN conjunct2, THEN conjunct1, rule_format, OF h2, of "''b1''" 30 2000]
  note c3 = new_items_position [THEN conjunct2, THEN conjunct2, THEN conjunct1, rule_format, OF h3,
      of None False "\<lambda>k. ''v2''" 2000]
  note c4 = new_items_position [THEN conjunct2, THEN conjunct2, THEN conjunct2, THEN conjunct1, rule_format,
      OF h4, of "Some ?items" False ?gen 2000]
  note c5 = new_items_position [THEN conjunct2, THEN conjunct2, THEN conjunct2, THEN conjunct2, THEN conjunct1,
      of example_project URL_basic ?items ?gen 2000 "trim (urlInput ?a4)"]
  note c6 = new_items_position [THEN conjunct2, THEN conjunct2, THEN conjunct2, THEN conjunct2, THEN conjunct2,
      rule_format, OF h5, of None False "\<lambda>k. ''v2''" 2000]
  from c1 have w1: "\<exists>n. n_id n = ''n1'' \<and> n_t n = 12 \<and> n_text n = ''hello'' \<and>
      currentVideo (snd (handleAddNote ''input'' None 12 ''n1'' 2000 ?a1)) =
        Some (example_video\<lparr>notes := n # notes example_video\<rparr>)"
    unfolding t1 by auto
  from c3 have w3: "currentProject (state (snd (handleAddVideo URL_basic None False (\<lambda>k. ''v2'') 2000 ?a3))) =
     Some (example_project\<lparr>videos := [example_video,
             \<lparr>v_id = ''v2'', v_title = ''Untitled Video'', videoId = ''AAAAAAAAAAA'',
              source = ''https://youtu.be/AAAAAAAAAAA'', playlistIndex = None, notes = [],
              bookmarks = [], lastTime = 0, v_createdAt = 2000\<rparr>]\<rparr>)"
    unfolding t3 v3 by simp
  have w4: "map videoId (videos (the (currentProject (state (snd
     (handleAddVideo URL_basic (Some ?items) False ?gen 2000 ?a4)))))) =
     [''dQw4w9WgXcQ'', ''AAAAAAAAAAA'', ''BBBBBBBBBBB'']"
    unfolding c4 using c5 f4 by (simp add: example_project_def example_video_def)
  from w1 c2 w3 w4 c6 show ?thesis by (intro conjI)
qed

section \<open>Deleting projects\<close>

lemma currentProject_first:
  "ps \<noteq> [] \<Longrightarrow> currentProject (s\<lparr>projects := ps, currentProjectId := first_id_or_null ps\<rparr>) = Some (hd ps)"
  by (cases ps) (auto simp: currentProject_def first_id_or_null_def find_Some_iff split: option.splits)

text \<open>
  Claim C5. A confirmed deletion with a current project \<open>cp\<close> keeps exactly the projects
  whose identifier differs from that of \<open>cp\<close>; when none is left, the list becomes one
  new project named \<open>New Project\<close> with no videos. The list is never empty afterwards,
  the current project is its first element, and \<open>currentProjectId\<close> is that element's
  identifier (whenever the identifier is not the empty string, which \<open>||\<close> turns into
  \<open>null\<close>; the current project is the first element even then).
\<close>

theorem handleDeleteProject_spec:
  assumes cp: "currentProject (state a) = Some cp"
  shows "projects (state (handleDeleteProject True newId now a)) =
           (if filter (\<lambda>p. p_id p \<noteq> p_id cp) (projects (state a)) = []
            then [\<lparr>p_id = newId, p_name = ''New Project'', videos = [], p_createdAt = now\<rparr>]
            else filter (\<lambda>p. p_id p \<noteq> p_id cp) (projects (state a))) \<and>
         projects (state (handleDeleteProject True newId now a)) \<noteq> [] \<and>
         currentProject (state (handleDeleteProject True newId now a)) =
           Some (hd (projects (state (handleDeleteProject True newId now a)))) \<and>
         (p_id (hd (projects (state (handleDeleteProject True newId now a)))) \<noteq> [] \<longrightarrow>
            currentProjectId (state (handleDeleteProject True newId now a)) =
              Some (p_id (hd (projects (state (handleDeleteProject True newId now a))))))"
proof -
  let ?rem = "filter (\<lambda>p. p_id p \<noteq> p_id cp) (projects (state a))"
  let ?ps = "if ?rem \<noteq> [] then ?rem
             else [\<lparr>p_id = newId, p_name = ''New Project'', videos = [], p_createdAt = now\<rparr>]"
  have eq: "state (handleDeleteProject True newId now a) =
            (state a)\<lparr>projects := ?ps, currentProjectId := first_id_or_null ?ps\<rparr>"
    by (simp add: handleDeleteProject_def cp Let_def)
  have ne: "?ps \<noteq> []" by simp
  have cur: "currentProject (state (handleDeleteProject True newId now a)) = Some (hd ?ps)"
    unfolding eq using ne by (rule currentProject_first)
  have ps: "projects (state (handleDeleteProject True newId now a)) = ?ps"
    by (simp add: eq)
  have cid: "currentProjectId (state (handleDeleteProject True newId now a)) = first_id_or_null ?ps"
    by (simp add: eq)
  have fst: "p_id (hd ?ps) \<noteq> [] \<longrightarrow> first_id_or_null ?ps = Some (p_id (hd ?ps))"
    using ne by (cases ?ps) (simp_all add: first_id_or_null_def)
  show ?thesis
    unfolding ps cur cid using ne fst by simp
qed

theorem handleDeleteProject_spec_witness:
  "currentProject (state example_app) = Some example_project \<and>
   projects (state (handleDeleteProject True ''p2'' 3000 example_app)) =
     [\<lparr>p_id = ''p2'', p_name = ''New Project'', videos = [], p_createdAt = 3000\<rparr>] \<and>
   currentProject (state (handleDeleteProject True ''p2'' 3000 example_app)) =
     Some \<lparr>p_id = ''p2'', p_name = ''New Project'', videos = [], p_createdAt = 3000\<rparr> \<and>
   currentProjectId (state (handleDeleteProject True ''p2'' 3000 example_app)) = Some ''p2''"
proof -
  have cp: "currentProject (state example_app) = Some example_project" by code_simp
  have rem: "filter (\<lambda>p. p_id p \<noteq> p_id example_project) (projects (state example_app)) = []"
    by code_simp
  note t = handleDeleteProject_spec [OF cp, of "''p2''" 3000]
  from t have ps: "projects (state (handleDeleteProject True ''p2'' 3000 example_app)) =
     [\<lparr>p_id = ''p2'', p_name = ''New Project'', videos = [], p_createdAt = 3000\<rparr>]"
    unfolding rem by simp
  from t have "currentProject (state (handleDeleteProject True ''p2'' 3000 example_app)) =
     Some \<lparr>p_id = ''p2'', p_name = ''New Project'', videos = [], p_createdAt = 3000\<rparr>"
    unfolding ps by simp
  moreover from t have "currentProjectId (state (handleDeleteProject True ''p2'' 3000 example_app)) = Some ''p2''"
    unfolding ps by simp
  ultimately show ?thesis using cp ps by simp
qed

section \<open>Importing an exported project\<close>

text \<open>
  The effect rewrites an identifier only when it is one fixed value, written out in the
  code; a document without that identifier is returned as it is, duplicates included.
\<close>

lemma duplicateIdEffect_other_ids:
  assumes "''2e1d9cd0-5a2a-47c7-89c5-5bda0acd1054'' \<notin> set (map p_id (projects s))"
  shows "duplicateIdEffect gen s = s"
proof -
  have "map (\<lambda>(index, project).
               project\<lparr>p_id := (if p_id project = ''2e1d9cd0-5a2a-47c7-89c5-5bda0acd1054'' \<and> index > 0
                                 then gen index else p_id project)\<rparr>)
            (enumerate n ps) = ps"
    if "''2e1d9cd0-5a2a-47c7-89c5-5bda0acd1054'' \<notin> set (map p_id ps)" for n ps
    using that by (induction ps arbitrary: n) auto
  from this [OF assms] show ?thesis
    by (simp add: duplicateIdEffect_def Let_def)
qed

lemma import_existing_id:
  assumes "p_id p \<in> set (map p_id (projects (state a)))" "p_id p \<noteq> []"
  shows "\<not> distinct (map p_id (projects (state (snd (handleImportJSON (Some p) a)))))"
  using assms by (simp add: handleImportJSON_def)

text \<open>
  Claim C6 asks that re-importing an exported project be detected as a collision of
  identifiers and resolved by a new identifier. The import appends the project under the
  identifier of the file; the effect that follows sees the duplicate and leaves it: the
  document holds the identifier \<open>p1\<close> twice.
\<close>

theorem reimport_keeps_duplicate:
  "handleExportJSON example_app = Some example_project \<and>
   map p_id (projects (state (snd (handleImportJSON (handleExportJSON example_app) example_app)))) =
     [''p1'', ''p1''] \<and>
   map p_id (projects (duplicateIdEffect (\<lambda>k. ''fresh'')
     (state (snd (handleImportJSON (handleExportJSON example_app) example_app))))) = [''p1'', ''p1''] \<and>
   \<not> distinct (map p_id (projects (duplicateIdEffect (\<lambda>k. ''fresh'')
     (state (snd (handleImportJSON (handleExportJSON example_app) example_app))))))"
  by code_simp

section \<open>Saving the playback position\<close>

lemma saveLastTime_twice:
  "saveLastTime c v t (saveLastTime c v t s) = saveLastTime c v t s"
  by (simp add: saveLastTime_def comp_def cong: map_cong)

lemma saveLastTime_same:
  assumes "\<forall>p\<in>set (projects s). Some (p_id p) = c \<longrightarrow> (\<forall>x\<in>set (videos p). videoId x = v \<longrightarrow> lastTime x = t)"
  shows "saveLastTime c v t s = s"
proof -
  have v: "map (\<lambda>x. if videoId x = v then x\<lparr>lastTime := t\<rparr> else x) (videos p) = videos p"
    if "p \<in> set (projects s)" "Some (p_id p) = c" for p
    using assms that by (intro map_idI) auto
  have "map (\<lambda>p. if Some (p_id p) \<noteq> c then p
                  else p\<lparr>videos := map (\<lambda>x. if videoId x = v then x\<lparr>lastTime := t\<rparr> else x) (videos p)\<rparr>)
            (projects s) = projects s"
    by (intro map_idI) (auto simp: v)
  then show ?thesis by (simp add: saveLastTime_def)
qed

lemma persistTick_twice: "persistTick c v t (persistTick c v t w) = persistTick c v t w"
  by (cases w) (simp add: persistTick_def)

text \<open>
  Claim C7. Applying the update of the playback position twice with the same value gives
  the document that applying it once gives; a second tick of the watcher with the same
  position changes nothing either; and when every video that the update addresses
  already has that position, the update returns the document it was given.
\<close>

theorem saveLastTime_idempotent:
  "saveLastTime c v t (saveLastTime c v t s) = saveLastTime c v t s \<and>
   persistTick c v t (persistTick c v t w) = persistTick c v t w \<and>
   ((\<forall>p\<in>set (projects s). Some (p_id p) = c \<longrightarrow>
        (\<forall>x\<in>set (videos p). videoId x = v \<longrightarrow> lastTime x = t)) \<longrightarrow>
    saveLastTime c v t s = s)"
  using saveLastTime_twice persistTick_twice saveLastTime_same by blast

theorem saveLastTime_idempotent_witness:
  "saveLastTime (Some ''p1'') ''dQw4w9WgXcQ'' 0 (state example_app) = state example_app \<and>
   saveLastTime (Some ''p1'') ''dQw4w9WgXcQ'' 42 (saveLastTime (Some ''p1'') ''dQw4w9WgXcQ'' 42 (state example_app)) =
     saveLastTime (Some ''p1'') ''dQw4w9WgXcQ'' 42 (state example_app) \<and>
   map (map lastTime \<circ> videos) (projects (saveLastTime (Some ''p1'') ''dQw4w9WgXcQ'' 42 (state example_app))) =
     [[42]] \<and>
   map (map lastTime \<circ> videos) (projects (state example_app)) = [[0]]"
proof -
  have h: "\<forall>p\<in>set (projects (state example_app)). Some (p_id p) = Some ''p1'' \<longrightarrow>
        (\<forall>x\<in>set (videos p). videoId x = ''dQw4w9WgXcQ'' \<longrightarrow> lastTime x = 0)"
    by (simp add: example_app_def example_project_def example_video_def)
  have v: "map (map lastTime \<circ> videos) (projects (saveLastTime (Some ''p1'') ''dQw4w9WgXcQ'' 42 (state example_app))) =
     [[42]]"
    by (simp add: saveLastTime_def example_app_def example_project_def example_video_def)
  have v0: "map (map lastTime \<circ> videos) (projects (state example_app)) = [[0]]"
    by (simp add: example_app_def example_project_def example_video_def)
  from saveLastTime_idempotent [of "Some ''p1''" "''dQw4w9WgXcQ''" 0 "state example_app"] h
  have "saveLastTime (Some ''p1'') ''dQw4w9WgXcQ'' 0 (state example_app) = state example_app"
    by blast
  moreover from saveLastTime_idempotent [of "Some ''p1''" "''dQw4w9WgXcQ''" 42 "state example_app"]
  have "saveLastTime (Some ''p1'') ''dQw4w9WgXcQ'' 42 (saveLastTime (Some ''p1'') ''dQw4w9WgXcQ'' 42 (state example_app)) =
     saveLastTime (Some ''p1'') ''dQw4w9WgXcQ'' 42 (state example_app)"
    by blast
  ultimately show ?thesis using v v0 by blast
qed

section \<open>Uniqueness of identifiers under the operations\<close>

text \<open>
  Creating a project, storing a note and adding a bookmark keep the invariant when the
  generated identifier does not occur in the document. Adding videos keeps it when the
  generated identifiers are pairwise different and new and when a playlist answer names
  no video twice.
\<close>

lemma unique_ids_map:
  assumes u: "unique_ids s"
    and f: "\<And>p. p_id (f p) = p_id p"
    and ok: "\<And>p. p \<in> set (projects s) \<Longrightarrow> unique_in_project p \<Longrightarrow> unique_in_project (f p)"
  shows "unique_ids (s\<lparr>projects := map f (projects s)\<rparr>)"
proof -
  have "p_id \<circ> f = p_id"
    by (rule ext) (simp add: f)
  with u ok show ?thesis by (simp add: unique_ids_def)
qed

lemma unique_in_project_map:
  assumes u: "unique_in_project p"
    and g: "\<And>v. v_id (g v) = v_id v" "\<And>v. videoId (g v) = videoId v"
    and ok: "\<And>v. v \<in> set (videos p) \<Longrightarrow> unique_in_video v \<Longrightarrow> unique_in_video (g v)"
  shows "unique_in_project (p\<lparr>videos := map g (videos p)\<rparr>)"
proof -
  have "v_id \<circ> g = v_id" "videoId \<circ> g = videoId"
    by (rule ext, simp add: g)+
  with u ok show ?thesis by (simp add: unique_in_project_def)
qed

lemma note_ids_in_ids_of:
  "p \<in> set (projects s) \<Longrightarrow> v \<in> set (videos p) \<Longrightarrow> set (map n_id (notes v)) \<subseteq> ids_of s"
  by (fastforce simp: ids_of_def)

lemma bookmark_ids_in_ids_of:
  "p \<in> set (projects s) \<Longrightarrow> v \<in> set (videos p) \<Longrightarrow> set (map b_id (bookmarks v)) \<subseteq> ids_of s"
  by (fastforce simp: ids_of_def)

lemma video_ids_in_ids_of:
  "p \<in> set (projects s) \<Longrightarrow> set (map v_id (videos p)) \<subseteq> ids_of s"
  by (fastforce simp: ids_of_def)

lemma project_ids_in_ids_of: "set (map p_id (projects s)) \<subseteq> ids_of s"
  by (auto simp: ids_of_def)

lemma unique_ids_add_note:
  assumes u: "unique_ids s" and fresh: "n_id n \<notin> ids_of s"
  shows "unique_ids (add_note cp cv n s)"
  unfolding add_note_def
proof (rule unique_ids_map [OF u])
  fix p assume p: "p \<in> set (projects s)" and up: "unique_in_project p"
  have "unique_in_project (p\<lparr>videos := map (\<lambda>v. if videoId v = videoId cv then v\<lparr>notes := n # notes v\<rparr> else v) (videos p)\<rparr>)"
  proof (rule unique_in_project_map [OF up])
    fix v assume v: "v \<in> set (videos p)" and uv: "unique_in_video v"
    have "n_id n \<notin> set (map n_id (notes v))"
      using fresh note_ids_in_ids_of [OF p v] by blast
    with uv show "unique_in_video (if videoId v = videoId cv then v\<lparr>notes := n # notes v\<rparr> else v)"
      by (simp add: unique_in_video_def)
  qed simp_all
  with up show "unique_in_project (if p_id p \<noteq> p_id cp then p
      else p\<lparr>videos := map (\<lambda>v. if videoId v = videoId cv then v\<lparr>notes := n # notes v\<rparr> else v) (videos p)\<rparr>)"
    by simp
qed simp

lemma unique_ids_add_bookmark:
  assumes u: "unique_ids s" and fresh: "b_id b \<notin> ids_of s"
  shows "unique_ids (add_bookmark cp cv b s)"
  unfolding add_bookmark_def
proof (rule unique_ids_map [OF u])
  fix p assume p: "p \<in> set (projects s)" and up: "unique_in_project p"
  have "unique_in_project (p\<lparr>videos := map (\<lambda>v. if videoId v = videoId cv then v\<lparr>bookmarks := b # bookmarks v\<rparr> else v) (videos p)\<rparr>)"
  proof (rule unique_in_project_map [OF up])
    fix v assume v: "v \<in> set (videos p)" and uv: "unique_in_video v"
    have "b_id b \<notin> set (map b_id (bookmarks v))"
      using fresh bookmark_ids_in_ids_of [OF p v] by blast
    with uv show "unique_in_video (if videoId v = videoId cv then v\<lparr>bookmarks := b # bookmarks v\<rparr> else v)"
      by (simp add: unique_in_video_def)
  qed simp_all
  with up show "unique_in_project (if p_id p \<noteq> p_id cp then p
      else p\<lparr>videos := map (\<lambda>v. if videoId v = videoId cv then v\<lparr>bookmarks := b # bookmarks v\<rparr> else v) (videos p)\<rparr>)"
    by simp
qed simp

lemma handleAddNote_unique:
  assumes "unique_ids (state a)" "noteId \<notin> ids_of (state a)"
  shows "unique_ids (state (snd (handleAddNote type answer time noteId now a)))"
  using assms
  by (auto simp: handleAddNote_def Let_def intro!: unique_ids_add_note split: option.splits)

lemma handleAddBookmark_unique:
  assumes "unique_ids (state a)" "newId \<notin> ids_of (state a)"
  shows "unique_ids (state (handleAddBookmark time newId now a))"
  using assms
  by (auto simp: handleAddBookmark_def Let_def intro!: unique_ids_add_bookmark split: option.splits)

lemma handleAddProject_unique:
  assumes "unique_ids (state a)" "newId \<notin> ids_of (state a)"
  shows "unique_ids (state (handleAddProject answer newId now a))"
  using assms project_ids_in_ids_of [of "state a"]
  by (auto simp: handleAddProject_def Let_def unique_ids_def unique_in_project_def split: option.splits)

lemma distinct_map_eq:
  "distinct (map f xs) \<Longrightarrow> x \<in> set xs \<Longrightarrow> y \<in> set xs \<Longrightarrow> f x = f y \<Longrightarrow> x = y"
  by (auto simp: distinct_map dest: inj_onD)

lemma unique_ids_add_videos:
  assumes u: "unique_ids (state a)"
    and cp: "cp \<in> set (projects (state a))"
    and d1: "distinct (map v_id vs)" "set (map v_id vs) \<inter> set (map v_id (videos cp)) = {}"
    and d2: "distinct (map videoId vs)" "set (map videoId vs) \<inter> set (map videoId (videos cp)) = {}"
    and d3: "\<forall>v\<in>set vs. unique_in_video v"
  shows "unique_ids (state (add_videos cp vs a))"
proof -
  let ?f = "\<lambda>p. if p_id p = p_id cp then p\<lparr>videos := videos p @ vs\<rparr> else p"
  have "unique_ids ((state a)\<lparr>projects := map ?f (projects (state a))\<rparr>)"
  proof (rule unique_ids_map [OF u])
    fix p assume p: "p \<in> set (projects (state a))" and up: "unique_in_project p"
    show "unique_in_project (?f p)"
    proof (cases "p_id p = p_id cp")
      case True
      from u have "distinct (map p_id (projects (state a)))" by (simp add: unique_ids_def)
      from distinct_map_eq [OF this p cp True] have "p = cp" .
      with up d1 d2 d3 True show ?thesis
        by (auto simp: unique_in_project_def)
    next
      case False
      with up show ?thesis by simp
    qed
  qed simp
  then show ?thesis by (simp add: add_videos_def)
qed

lemma fetchPlaylistVideos_props:
  assumes inj: "inj gen"
    and api: "\<And>items. api = Some items \<Longrightarrow> distinct (map snd items)"
  shows "distinct (map v_id (fetchPlaylistVideos new_URL api gen now src)) \<and>
         set (map v_id (fetchPlaylistVideos new_URL api gen now src)) \<subseteq> range gen \<and>
         distinct (map videoId (fetchPlaylistVideos new_URL api gen now src)) \<and>
         (\<forall>v\<in>set (fetchPlaylistVideos new_URL api gen now src). unique_in_video v)"
proof (cases api)
  case None
  then show ?thesis
    by (auto simp: fetchPlaylistVideos_def unique_in_video_def split: option.splits)
next
  case (Some items)
  let ?F = "\<lambda>(index, (title, vid)).
                 \<lparr>v_id = gen index, v_title = title, videoId = vid,
                  source = ''https://www.youtube.com/watch?v='' @ vid,
                  playlistIndex = Some (index + 1), notes = [], bookmarks = [],
                  lastTime = 0, v_createdAt = now\<rparr>"
  have pv: "fetchPlaylistVideos new_URL api gen now src = map ?F (enumerate 0 items)"
    by (simp add: fetchPlaylistVideos_def Some)
  have "map v_id (map ?F (enumerate 0 items)) = map gen [0..<0 + length items]"
    by (rule map_enumerate_index) (simp add: split_beta)
  then have ids: "map v_id (map ?F (enumerate 0 items)) = map gen [0..<length items]"
    by (simp only: add_0)
  have vids: "map videoId (map ?F (enumerate 0 items)) = map snd items"
    by (rule map_enumerate_item) (simp add: split_beta)
  have d: "distinct (map gen [0..<length items])"
    using inj by (simp add: distinct_map inj_on_def inj_def)
  have ok: "\<forall>v\<in>set (map ?F (enumerate 0 items)). unique_in_video v"
    by (auto simp: unique_in_video_def)
  show ?thesis
    unfolding pv ids vids using d api [OF Some] ok by auto
qed

lemma unique_ids_single_video:
  assumes u: "unique_ids (state a)"
    and cp: "cp \<in> set (projects (state a))"
    and fresh: "v_id v \<notin> ids_of (state a)"
    and new: "find (\<lambda>x. videoId x = videoId v) (videos cp) = None"
    and empty: "notes v = []" "bookmarks v = []"
  shows "unique_ids (state (add_videos cp [v] a))"
proof (rule unique_ids_add_videos [OF u cp])
  show "set (map v_id [v]) \<inter> set (map v_id (videos cp)) = {}"
    using fresh video_ids_in_ids_of [OF cp] by auto
  show "set (map videoId [v]) \<inter> set (map videoId (videos cp)) = {}"
    using new by (auto simp: find_None_iff)
  show "\<forall>x\<in>set [v]. unique_in_video x"
    by (simp add: unique_in_video_def empty)
qed simp_all

lemma unique_ids_playlist:
  assumes u: "unique_ids (state a)"
    and cp: "cp \<in> set (projects (state a))"
    and inj: "inj gen"
    and fresh: "range gen \<inter> ids_of (state a) = {}"
    and api: "\<And>items. api = Some items \<Longrightarrow> distinct (map snd items)"
  shows "unique_ids (state (add_videos cp
           (filter (\<lambda>v. videoId v \<notin> set (map videoId (videos cp)))
                   (fetchPlaylistVideos new_URL api gen now src)) a))"
proof (rule unique_ids_add_videos [OF u cp])
  let ?pv = "fetchPlaylistVideos new_URL api gen now src"
  let ?P = "\<lambda>v. videoId v \<notin> set (map videoId (videos cp))"
  note props = fetchPlaylistVideos_props [OF inj api, of api new_URL now src, simplified]
  from props show "distinct (map v_id (filter ?P ?pv))"
    by (simp add: distinct_map_filter)
  from props show "distinct (map videoId (filter ?P ?pv))"
    by (simp add: distinct_map_filter)
  from props have "set (map v_id (filter ?P ?pv)) \<subseteq> range gen" by auto
  with fresh video_ids_in_ids_of [OF cp]
  show "set (map v_id (filter ?P ?pv)) \<inter> set (map v_id (videos cp)) = {}" by blast
  show "set (map videoId (filter ?P ?pv)) \<inter> set (map videoId (videos cp)) = {}" by auto
  from props show "\<forall>v\<in>set (filter ?P ?pv). unique_in_video v" by simp
qed

lemma handleAddVideo_unique:
  assumes u: "unique_ids (state a)"
    and inj: "inj gen"
    and fresh: "range gen \<inter> ids_of (state a) = {}"
    and api: "\<And>items. api = Some items \<Longrightarrow> distinct (map snd items)"
  shows "unique_ids (state (snd (handleAddVideo new_URL api useManual gen now a)))"
proof (cases "currentProject (state a)")
  case None
  with u show ?thesis by (simp add: handleAddVideo_def)
next
  case (Some cp)
  then have cp: "cp \<in> set (projects (state a))" by (rule currentProject_mem)
  have g0: "gen 0 \<notin> ids_of (state a)" using fresh by auto
  note single = unique_ids_single_video [OF u cp]
  note batch = unique_ids_playlist [OF u cp inj fresh api, simplified]
  show ?thesis
    using u g0
    by (auto simp: handleAddVideo_def Some Let_def intro!: single batch
             split: option.splits ref_type.splits)
qed

lemma example_app_unique: "unique_ids (state example_app)"
  by code_simp

text \<open>
  Claim C8 asks that identifiers stay unique at every level after any sequence of the
  four operations, given only that generated identifiers are new. A playlist answer that
  names the same video twice is filtered against the videos of the project, not against
  itself: both items are added, with new and different identifiers, and the project
  holds the external identifier \<open>AAAAAAAAAAA\<close> twice.
\<close>

theorem playlist_repeats_videoId:
  "distinct (map p_id (projects (state example_app))) \<and>
   map videoId (videos (hd (projects (state example_app)))) = [''dQw4w9WgXcQ''] \<and>
   map v_id (videos (hd (projects (state example_app)))) = [''v1''] \<and>
   ''g0'' \<notin> ids_of (state example_app) \<and> ''g1'' \<notin> ids_of (state example_app) \<and>
   map videoId (videos (hd (projects (state (snd
     (handleAddVideo URL_basic (Some [(''Intro'', ''AAAAAAAAAAA''), (''Intro again'', ''AAAAAAAAAAA'')])
        False (\<lambda>k. if k = 0 then ''g0'' else ''g1'') 2000
        (example_app\<lparr>urlInput := ''https://www.youtube.com/playlist?list=PL590L5WQmH8fJ54F''\<rparr>))))))) =
     [''dQw4w9WgXcQ'', ''AAAAAAAAAAA'', ''AAAAAAAAAAA''] \<and>
   map v_id (videos (hd (projects (state (snd
     (handleAddVideo URL_basic (Some [(''Intro'', ''AAAAAAAAAAA''), (''Intro again'', ''AAAAAAAAAAA'')])
        False (\<lambda>k. if k = 0 then ''g0'' else ''g1'') 2000
        (example_app\<lparr>urlInput := ''https://www.youtube.com/playlist?list=PL590L5WQmH8fJ54F''\<rparr>))))))) =
     [''v1'', ''g0'', ''g1''] \<and>
   \<not> distinct (map videoId (videos (hd (projects (state (snd
     (handleAddVideo URL_basic (Some [(''Intro'', ''AAAAAAAAAAA''), (''Intro again'', ''AAAAAAAAAAA'')])
        False (\<lambda>k. if k = 0 then ''g0'' else ''g1'') 2000
        (example_app\<lparr>urlInput := ''https://www.youtube.com/playlist?list=PL590L5WQmH8fJ54F''\<rparr>))))))))"
  by code_simp

section \<open>The loader\<close>

lemma map_of_replace:
  "map_of (map (\<lambda>(k', y). if k' = name then (k', x) else (k', y)) gs) k =
     (if k = name \<and> name \<in> fst ` set gs then Some x else map_of gs k)"
proof (induction gs)
  case Nil
  show ?case by simp
next
  case (Cons g gs)
  obtain a b where g: "g = (a, b)" by (cases g)
  show ?case
  proof (cases "a = name")
    case True
    have "k \<noteq> name \<Longrightarrow> map_of (map (\<lambda>(k', y). if k' = name then (k', x) else (k', y)) gs) k = map_of gs k"
      by (simp add: Cons.IH)
    then show ?thesis by (simp add: g True)
  next
    case False
    then show ?thesis using Cons by (force simp add: g)
  qed
qed

lemma map_of_set_entry:
  "map_of (set_entry name x fs) k = (if k = name then Some x else map_of fs k)"
proof (cases "name \<in> set (map fst fs)")
  case True
  then show ?thesis by (simp add: set_entry_def map_of_replace)
next
  case False
  then have "map_of fs name = None" by (simp add: map_of_eq_None_iff)
  with False show ?thesis by (auto simp: set_entry_def map_add_def split: option.splits)
qed

lemma entry_set_entry:
  "entry (JObj (set_entry name x fs)) k = (if k = name then x else entry (JObj fs) k)"
  by (simp add: entry_def map_of_set_entry)

lemma initialState_value:
  "initialState newId now =
     JObj [(''theme'', JStr ''system''), (''compact'', JBool False),
           (''distractionFree'', JBool False),
           (''projects'',
              JArr [JObj [(''id'', JStr newId), (''name'', JStr ''My First Study Set''),
                          (''videos'', JArr []), (''createdAt'', JNum (of_nat now))]]),
           (''currentProjectId'', JStr newId)]"
  by (simp add: initialState_def defaultState_def own_entries_def set_entry_def)

lemma load_fallback:
  assumes "item = Inr None \<or> item = Inr (Some []) \<or> (\<exists>e. item = Inl e) \<or>
           (\<exists>s. item = Inr (Some s) \<and> JSON_parse s = None)"
  shows "useLocalStorage JSON_parse item newId now = initialState newId now"
  using assms by (auto simp: useLocalStorage_def load_saved_def)

lemma load_raises:
  assumes "load_saved JSON_parse item = Inl e"
  shows "useLocalStorage JSON_parse item newId now = initialState newId now"
  using assms by (simp add: useLocalStorage_def)

lemma load_fills_current:
  assumes item: "item = Inr (Some s)" "s \<noteq> []"
    and parsed: "JSON_parse s = Some (JObj fs)"
    and missing: "\<not> truthy (entry (JObj fs) ''currentProjectId'')"
    and ps: "entry (JObj fs) ''projects'' = JArr (p0 # rest)"
  shows "useLocalStorage JSON_parse item newId now =
           JObj (set_entry ''currentProjectId'' (optional_id p0) fs)"
  using assms
  by (simp add: useLocalStorage_def load_saved_def get_prop_def get_index0_def entry_def
        own_entries_def)

lemma load_keeps_current:
  assumes "item = Inr (Some s)" "s \<noteq> []" "JSON_parse s = Some (JObj fs)"
    and "truthy (entry (JObj fs) ''currentProjectId'')"
  shows "entry (useLocalStorage JSON_parse item newId now) k = entry (JObj fs) k"
proof -
  have "useLocalStorage JSON_parse item newId now =
          JObj (set_entry ''currentProjectId'' (entry (JObj fs) ''currentProjectId'') fs)"
    using assms
    by (simp add: useLocalStorage_def load_saved_def get_prop_def entry_def own_entries_def)
  then show ?thesis by (simp add: entry_set_entry)
qed

lemma load_not_object:
  assumes "item = Inr (Some s)" "s \<noteq> []" "JSON_parse s = Some parsed" "\<forall>fs. parsed \<noteq> JObj fs"
  shows "useLocalStorage JSON_parse item newId now = initialState newId now"
  using assms
  by (cases parsed)
     (simp_all add: useLocalStorage_def load_saved_def get_prop_def get_index0_def truthy_def)

lemma load_no_projects:
  assumes "item = Inr (Some s)" "s \<noteq> []" "JSON_parse s = Some (JObj fs)"
    and "\<not> truthy (entry (JObj fs) ''currentProjectId'')"
    and "entry (JObj fs) ''projects'' = JUndefined \<or> entry (JObj fs) ''projects'' = JNull"
  shows "useLocalStorage JSON_parse item newId now = initialState newId now"
  using assms
  by (auto simp: useLocalStorage_def load_saved_def get_prop_def get_index0_def entry_def)

lemma load_fills:
  assumes "item = Inr (Some s)" "s \<noteq> []" "JSON_parse s = Some (JObj fs)"
    and "\<not> truthy (entry (JObj fs) ''currentProjectId'')"
    and "entry (JObj fs) ''projects'' \<noteq> JUndefined" "entry (JObj fs) ''projects'' \<noteq> JNull"
  shows "\<exists>x. useLocalStorage JSON_parse item newId now = JObj (set_entry ''currentProjectId'' x fs) \<and>
             (\<forall>ps. entry (JObj fs) ''projects'' = JArr ps \<longrightarrow>
                   x = (case ps of [] \<Rightarrow> JUndefined | p0 # _ \<Rightarrow> optional_id p0))"
  using assms
  by (cases "entry (JObj fs) ''projects''")
     (auto simp: useLocalStorage_def load_saved_def get_prop_def get_index0_def entry_def
        own_entries_def optional_id_def split: list.splits)

lemma find_project_objects:
  assumes "list_all is_object ps"
  shows "find_project c ps = Inr JUndefined \<or> (\<exists>p\<in>set ps. find_project c ps = Inr p)"
  using assms
proof (induction ps)
  case Nil
  show ?case by simp
next
  case (Cons p ps)
  then obtain fs where p: "p = JObj fs" by (cases p) (simp_all add: is_object_def)
  from Cons show ?case by (auto simp: p get_prop_def)
qed

lemma currentProject_of_resolves:
  assumes ps: "entry st ''projects'' = JArr ps" and ne: "ps \<noteq> []" and obj: "list_all is_object ps"
  shows "\<exists>p\<in>set ps. currentProject_of st = Inr p"
proof -
  from ne obtain q qs where q: "ps = q # qs" by (cases ps) auto
  have tr: "truthy p" if "p \<in> set ps" for p
    using obj that by (cases p) (auto simp: list_all_iff is_object_def truthy_def)
  from find_project_objects [OF obj, of "entry st ''currentProjectId''"]
  show ?thesis
  proof
    assume "find_project (entry st ''currentProjectId'') ps = Inr JUndefined"
    then have "currentProject_of st = Inr q"
      by (simp add: currentProject_of_def ps truthy_def q)
    then show ?thesis by (auto simp: q)
  next
    assume "\<exists>p\<in>set ps. find_project (entry st ''currentProjectId'') ps = Inr p"
    then obtain p where p: "p \<in> set ps" "find_project (entry st ''currentProjectId'') ps = Inr p"
      by blast
    then have "currentProject_of st = Inr p"
      by (simp add: currentProject_of_def ps tr)
    with p show ?thesis by blast
  qed
qed

text \<open>
  Claim C9, as the code has it. The loader has a value on every input: each exception of
  its block is caught. It is the default state (one project with the generated
  identifier and no videos, \<open>currentProjectId\<close> set to that identifier) when nothing is
  saved, when the storage cannot be read, when the saved string is not JSON, when the
  parsed value is not an object, and when the record has neither a truthy
  \<open>currentProjectId\<close> nor a project list. For every other record it is the record with
  its entries as saved: a truthy \<open>currentProjectId\<close> is kept, a missing or falsy one is
  set to the identifier of the first project (\<open>undefined\<close> when the list is empty), and
  no other entry is checked or given a default. Whenever the saved project list is a
  non-empty list of objects, the component finds its current project in the result.
\<close>

theorem useLocalStorage_spec:
  "((item = Inr None \<or> item = Inr (Some []) \<or> (\<exists>e. item = Inl e) \<or>
     (\<exists>s. item = Inr (Some s) \<and> JSON_parse s = None) \<or>
     (\<exists>e. load_saved JSON_parse item = Inl e)) \<longrightarrow>
      useLocalStorage JSON_parse item newId now = initialState newId now) \<and>
   initialState newId now =
     JObj [(''theme'', JStr ''system''), (''compact'', JBool False),
           (''distractionFree'', JBool False),
           (''projects'',
              JArr [JObj [(''id'', JStr newId), (''name'', JStr ''My First Study Set''),
                          (''videos'', JArr []), (''createdAt'', JNum (of_nat now))]]),
           (''currentProjectId'', JStr newId)] \<and>
   ((item = Inr (Some s) \<and> s \<noteq> [] \<and> JSON_parse s = Some parsed \<and> (\<forall>fs. parsed \<noteq> JObj fs)) \<longrightarrow>
      useLocalStorage JSON_parse item newId now = initialState newId now) \<and>
   ((item = Inr (Some s) \<and> s \<noteq> [] \<and> JSON_parse s = Some (JObj fs) \<and>
     \<not> truthy (entry (JObj fs) ''currentProjectId'') \<and>
     (entry (JObj fs) ''projects'' = JUndefined \<or> entry (JObj fs) ''projects'' = JNull)) \<longrightarrow>
      useLocalStorage JSON_parse item newId now = initialState newId now) \<and>
   ((item = Inr (Some s) \<and> s \<noteq> [] \<and> JSON_parse s = Some (JObj fs) \<and>
     truthy (entry (JObj fs) ''currentProjectId'')) \<longrightarrow>
      (\<forall>k. entry (useLocalStorage JSON_parse item newId now) k = entry (JObj fs) k)) \<and>
   ((item = Inr (Some s) \<and> s \<noteq> [] \<and> JSON_parse s = Some (JObj fs) \<and>
     \<not> truthy (entry (JObj fs) ''currentProjectId'') \<and>
     entry (JObj fs) ''projects'' \<noteq> JUndefined \<and> entry (JObj fs) ''projects'' \<noteq> JNull) \<longrightarrow>
      (\<forall>k. k \<noteq> ''currentProjectId'' \<longrightarrow>
           entry (useLocalStorage JSON_parse item newId now) k = entry (JObj fs) k) \<and>
      (\<forall>ps. entry (JObj fs) ''projects'' = JArr ps \<longrightarrow>
           entry (useLocalStorage JSON_parse item newId now) ''currentProjectId'' =
             (case ps of [] \<Rightarrow> JUndefined | p0 # _ \<Rightarrow> optional_id p0))) \<and>
   ((item = Inr (Some s) \<and> s \<noteq> [] \<and> JSON_parse s = Some (JObj fs) \<and>
     entry (JObj fs) ''projects'' = JArr ps \<and> ps \<noteq> [] \<and> list_all is_object ps) \<longrightarrow>
      (\<exists>p\<in>set ps. currentProject_of (useLocalStorage JSON_parse item newId now) = Inr p))"
proof (intro conjI impI)
  assume "item = Inr None \<or> item = Inr (Some []) \<or> (\<exists>e. item = Inl e) \<or>
     (\<exists>s. item = Inr (Some s) \<and> JSON_parse s = None) \<or>
     (\<exists>e. load_saved JSON_parse item = Inl e)"
  then show "useLocalStorage JSON_parse item newId now = initialState newId now"
    using load_fallback [of item JSON_parse newId now] load_raises [of JSON_parse item _ newId now]
    by blast
next
  show "initialState newId now =
     JObj [(''theme'', JStr ''system''), (''compact'', JBool False),
           (''distractionFree'', JBool False),
           (''projects'',
              JArr [JObj [(''id'', JStr newId), (''name'', JStr ''My First Study Set''),
                          (''videos'', JArr []), (''createdAt'', JNum (of_nat now))]]),
           (''currentProjectId'', JStr newId)]"
    by (rule initialState_value)
next
  assume "item = Inr (Some s) \<and> s \<noteq> [] \<and> JSON_parse s = Some parsed \<and> (\<forall>fs. parsed \<noteq> JObj fs)"
  then show "useLocalStorage JSON_parse item newId now = initialState newId now"
    using load_not_object [of item s JSON_parse parsed newId now] by blast
next
  assume "item = Inr (Some s) \<and> s \<noteq> [] \<and> JSON_parse s = Some (JObj fs) \<and>
     \<not> truthy (entry (JObj fs) ''currentProjectId'') \<and>
     (entry (JObj fs) ''projects'' = JUndefined \<or> entry (JObj fs) ''projects'' = JNull)"
  then show "useLocalStorage JSON_parse item newId now = initialState newId now"
    using load_no_projects [of item s JSON_parse fs newId now] by blast
next
  assume "item = Inr (Some s) \<and> s \<noteq> [] \<and> JSON_parse s = Some (JObj fs) \<and>
     truthy (entry (JObj fs) ''currentProjectId'')"
  then show "\<forall>k. entry (useLocalStorage JSON_parse item newId now) k = entry (JObj fs) k"
    using load_keeps_current [of item s JSON_parse fs newId now] by blast
next
  assume h: "item = Inr (Some s) \<and> s \<noteq> [] \<and> JSON_parse s = Some (JObj fs) \<and>
     \<not> truthy (entry (JObj fs) ''currentProjectId'') \<and>
     entry (JObj fs) ''projects'' \<noteq> JUndefined \<and> entry (JObj fs) ''projects'' \<noteq> JNull"
  then obtain x where x: "useLocalStorage JSON_parse item newId now = JObj (set_entry ''currentProjectId'' x fs)"
      "\<forall>ps. entry (JObj fs) ''projects'' = JArr ps \<longrightarrow>
            x = (case ps of [] \<Rightarrow> JUndefined | p0 # _ \<Rightarrow> optional_id p0)"
    using load_fills [of item s JSON_parse fs newId now] by blast
  show "\<forall>k. k \<noteq> ''currentProjectId'' \<longrightarrow>
           entry (useLocalStorage JSON_parse item newId now) k = entry (JObj fs) k"
    unfolding x(1) by (simp add: entry_set_entry)
  show "\<forall>ps. entry (JObj fs) ''projects'' = JArr ps \<longrightarrow>
           entry (useLocalStorage JSON_parse item newId now) ''currentProjectId'' =
             (case ps of [] \<Rightarrow> JUndefined | p0 # _ \<Rightarrow> optional_id p0)"
    unfolding x(1) using x(2) by (simp add: entry_set_entry)
next
  assume h: "item = Inr (Some s) \<and> s \<noteq> [] \<and> JSON_parse s = Some (JObj fs) \<and>
     entry (JObj fs) ''projects'' = JArr ps \<and> ps \<noteq> [] \<and> list_all is_object ps"
  have "entry (useLocalStorage JSON_parse item newId now) ''projects'' = JArr ps"
  proof (cases "truthy (entry (JObj fs) ''currentProjectId'')")
    case True
    with h show ?thesis
      using load_keeps_current [of item s JSON_parse fs newId now "''projects''"] by simp
  next
    case False
    with h obtain x where "useLocalStorage JSON_parse item newId now = JObj (set_entry ''currentProjectId'' x fs)"
      using load_fills [of item s JSON_parse fs newId now] by auto
    with h show ?thesis by (simp add: entry_set_entry)
  qed
  with h show "\<exists>p\<in>set ps. currentProject_of (useLocalStorage JSON_parse item newId now) = Inr p"
    by (intro currentProject_of_resolves) simp_all
qed

text \<open>
  Claim C9 as stated has the loader produce a valid state from any record that misses
  fields. A record with a current project and no project list is returned as it is, and
  the component's first look at the project list raises; a record with an empty project
  list is returned with an empty list and no current project.
\<close>

theorem load_without_projects_counterexample:
  "example_parse ''stale'' = Some (JObj [(''currentProjectId'', JStr ''x'')]) \<and>
   useLocalStorage example_parse (Inr (Some ''stale'')) ''p9'' 5000 =
     JObj [(''currentProjectId'', JStr ''x'')] \<and>
   entry (useLocalStorage example_parse (Inr (Some ''stale'')) ''p9'' 5000) ''projects'' = JUndefined \<and>
   currentProject_of (useLocalStorage example_parse (Inr (Some ''stale'')) ''p9'' 5000) = Inl TypeError \<and>
   example_parse ''empty'' = Some (JObj [(''projects'', JArr [])]) \<and>
   useLocalStorage example_parse (Inr (Some ''empty'')) ''p9'' 5000 =
     JObj [(''projects'', JArr []), (''currentProjectId'', JUndefined)] \<and>
   currentProject_of (useLocalStorage example_parse (Inr (Some ''empty'')) ''p9'' 5000) = Inr JUndefined"
  by code_simp

theorem useLocalStorage_spec_witness:
  "useLocalStorage example_parse (Inr None) ''p9'' 5000 = initialState ''p9'' 5000 \<and>
   useLocalStorage example_parse (Inr (Some ''{oops'')) ''p9'' 5000 = initialState ''p9'' 5000 \<and>
   useLocalStorage example_parse (Inr (Some ''null'')) ''p9'' 5000 = initialState ''p9'' 5000 \<and>
   useLocalStorage example_parse (Inr (Some ''bare'')) ''p9'' 5000 = initialState ''p9'' 5000 \<and>
   entry (useLocalStorage example_parse (Inr (Some ''stale'')) ''p9'' 5000) ''currentProjectId'' =
     JStr ''x'' \<and>
   entry (useLocalStorage example_parse (Inr (Some ''stale'')) ''p9'' 5000) ''projects'' = JUndefined \<and>
   entry (useLocalStorage example_parse (Inr (Some ''saved'')) ''p9'' 5000) ''currentProjectId'' =
     JStr ''p1'' \<and>
   entry (useLocalStorage example_parse (Inr (Some ''saved'')) ''p9'' 5000) ''projects'' =
     JArr [JObj [(''id'', JStr ''p1''), (''name'', JStr ''Algebra''),
                 (''videos'', JArr []), (''createdAt'', JNum 1000)]] \<and>
   currentProject_of (useLocalStorage example_parse (Inr (Some ''saved'')) ''p9'' 5000) =
     Inr (JObj [(''id'', JStr ''p1''), (''name'', JStr ''Algebra''),
                (''videos'', JArr []), (''createdAt'', JNum 1000)])"
proof -
  let ?pf = "[(''id'', JStr ''p1''), (''name'', JStr ''Algebra''),
              (''videos'', JArr []), (''createdAt'', JNum 1000)]"
  let ?fs = "[(''theme'', JStr ''dark''), (''projects'', JArr [JObj ?pf])]"
  let ?stale = "[(''currentProjectId'', JStr ''x'')]"
  let ?bare = "[(''theme'', JStr ''dark'')]"
  have bad: "example_parse ''{oops'' = None" by (simp add: example_parse_def)
  have good: "example_parse ''saved'' = Some (JObj ?fs)"
    by (simp add: example_parse_def example_record_def)
  have stale: "example_parse ''stale'' = Some (JObj ?stale)" by (simp add: example_parse_def)
  have bare: "example_parse ''bare'' = Some (JObj ?bare)" by (simp add: example_parse_def)
  have null: "example_parse ''null'' = Some JNull" by (simp add: example_parse_def)
  have missing: "\<not> truthy (entry (JObj ?fs) ''currentProjectId'')"
    by (simp add: entry_def truthy_def)
  have ps: "entry (JObj ?fs) ''projects'' = JArr [JObj ?pf]" by (simp add: entry_def)
  have objs: "list_all is_object [JObj ?pf]" by (simp add: is_object_def)
  have st_c: "truthy (entry (JObj ?stale) ''currentProjectId'')" by (simp add: entry_def truthy_def)
  have st_e: "entry (JObj ?stale) ''currentProjectId'' = JStr ''x''"
    "entry (JObj ?stale) ''projects'' = JUndefined" by (simp_all add: entry_def)
  have bare_c: "\<not> truthy (entry (JObj ?bare) ''currentProjectId'')"
    "entry (JObj ?bare) ''projects'' = JUndefined" by (simp_all add: entry_def truthy_def)
  have oid: "optional_id (JObj ?pf) = JStr ''p1''" by (simp add: optional_id_def)
  have a: "useLocalStorage example_parse (Inr None) ''p9'' 5000 = initialState ''p9'' 5000"
    using useLocalStorage_spec [THEN conjunct1, rule_format, of "Inr None" example_parse "''p9''" 5000] by blast
  have c: "useLocalStorage example_parse (Inr (Some ''{oops'')) ''p9'' 5000 = initialState ''p9'' 5000"
    using useLocalStorage_spec [THEN conjunct1, rule_format, of "Inr (Some ''{oops'')" example_parse "''p9''" 5000] bad
    by blast
  have n: "useLocalStorage example_parse (Inr (Some ''null'')) ''p9'' 5000 = initialState ''p9'' 5000"
    using useLocalStorage_spec [THEN conjunct2, THEN conjunct2, THEN conjunct1, rule_format,
        of "Inr (Some ''null'')" "''null''" example_parse JNull "''p9''" 5000] null
    by simp
  have b: "useLocalStorage example_parse (Inr (Some ''bare'')) ''p9'' 5000 = initialState ''p9'' 5000"
    using useLocalStorage_spec [THEN conjunct2, THEN conjunct2, THEN conjunct2, THEN conjunct1, rule_format,
        of "Inr (Some ''bare'')" "''bare''" example_parse ?bare "''p9''" 5000] bare bare_c
    by simp
  have s: "\<forall>k. entry (useLocalStorage example_parse (Inr (Some ''stale'')) ''p9'' 5000) k =
             entry (JObj ?stale) k"
    using useLocalStorage_spec [THEN conjunct2, THEN conjunct2, THEN conjunct2, THEN conjunct2, THEN conjunct1,
        rule_format, of "Inr (Some ''stale'')" "''stale''" example_parse ?stale "''p9''" 5000]
      stale st_c
    by simp
  have f: "(\<forall>k. k \<noteq> ''currentProjectId'' \<longrightarrow>
           entry (useLocalStorage example_parse (Inr (Some ''saved'')) ''p9'' 5000) k = entry (JObj ?fs) k) \<and>
      (\<forall>ps. entry (JObj ?fs) ''projects'' = JArr ps \<longrightarrow>
           entry (useLocalStorage example_parse (Inr (Some ''saved'')) ''p9'' 5000) ''currentProjectId'' =
             (case ps of [] \<Rightarrow> JUndefined | p0 # _ \<Rightarrow> optional_id p0))"
    using useLocalStorage_spec [THEN conjunct2, THEN conjunct2, THEN conjunct2, THEN conjunct2, THEN conjunct2,
        THEN conjunct1, rule_format,
        of "Inr (Some ''saved'')" "''saved''" example_parse ?fs "''p9''" 5000]
      good missing ps
    by simp
  have v: "\<exists>p\<in>set [JObj ?pf].
      currentProject_of (useLocalStorage example_parse (Inr (Some ''saved'')) ''p9'' 5000) = Inr p"
    using useLocalStorage_spec [THEN conjunct2, THEN conjunct2, THEN conjunct2, THEN conjunct2, THEN conjunct2,
        THEN conjunct2, rule_format,
        of "Inr (Some ''saved'')" "''saved''" example_parse ?fs "[JObj ?pf]" "''p9''" 5000]
      good ps objs
    by simp
  from s have s1: "entry (useLocalStorage example_parse (Inr (Some ''stale'')) ''p9'' 5000) ''currentProjectId'' =
     JStr ''x''" by (simp add: st_e)
  from s have s2: "entry (useLocalStorage example_parse (Inr (Some ''stale'')) ''p9'' 5000) ''projects'' = JUndefined"
    by (simp add: st_e)
  from f ps have f1: "entry (useLocalStorage example_parse (Inr (Some ''saved'')) ''p9'' 5000) ''currentProjectId'' =
     JStr ''p1''" by (simp add: oid)
  from f have f2: "entry (useLocalStorage example_parse (Inr (Some ''saved'')) ''p9'' 5000) ''projects'' =
     JArr [JObj ?pf]" by (simp add: ps)
  from v have v1: "currentProject_of (useLocalStorage example_parse (Inr (Some ''saved'')) ''p9'' 5000) =
     Inr (JObj ?pf)" by simp
  from a c n b s1 s2 f1 f2 v1 show ?thesis by (intro conjI)
qed

end
